theory Spec2Isabelle
  imports Complex_Main "HOL-Library.Sublist"
begin

section \<open>Character classes of the C locale\<close>

text \<open>
  The engine classifies bytes with \<open>std::isspace\<close>, \<open>std::isalpha\<close>, \<open>std::ispunct\<close> and
  \<open>std::isdigit\<close> on \<open>unsigned char\<close> values. The program never changes the locale, so
  the classes are those of the "C" locale; bytes above 127 belong to none of them.
  A \<open>std::string\<close> is a byte string, modelled as \<open>string\<close> (a \<open>char list\<close>), and
  \<open>size_t\<close> indices are natural numbers: every index the functions below compute is bounded
  by the length of the string, so no wrap-around can occur.
\<close>

definition isspace :: "char \<Rightarrow> bool" where
  "isspace c = (let n = (of_char c :: nat) in n = 32 \<or> (9 \<le> n \<and> n \<le> 13))"



section \<open>Word boundaries (HtmlParser.hpp, \<open>isWordBoundaryAt\<close> and \<open>findWordBoundaries\<close>)\<close>








section \<open>Numbers and CSS values (CssParser.hpp)\<close>

text \<open>
  \<open>float\<close> values are modelled as real numbers: every operation is the exact one, and
  rounding to single precision is not modelled. Where a theorem below names concrete numbers
  they are small integers or dyadic fractions, on which the single-precision operations are
  exact as well.
\<close>

definition isdigit :: "char \<Rightarrow> bool" where
  "isdigit c = (let n = (of_char c :: nat) in 48 \<le> n \<and> n \<le> 57)"

definition tolower :: "char \<Rightarrow> char" where
  "tolower c = (let n = (of_char c :: nat) in if 65 \<le> n \<and> n \<le> 90 then char_of (n + 32) else c)"

text \<open>
  The exceptions of \<open>std::stof\<close> and \<open>std::stoi\<close>: \<open>std::invalid_argument\<close> when no
  conversion can be performed and \<open>std::out_of_range\<close> when the value does not fit the result
  type. \<open>Unmodelled\<close> is not an exception of the program: it marks the inputs that
  \<open>strtof\<close> accepts but that have no value in this model (hexadecimal floats and the words
  \<open>inf\<close> and \<open>nan\<close>).
\<close>

datatype error = InvalidArgument | OutOfRange | Unmodelled

definition digit_val :: "char \<Rightarrow> nat" where
  "digit_val c = of_char c - 48"

fun digits_val :: "nat \<Rightarrow> string \<Rightarrow> nat" where
  "digits_val acc [] = acc"
| "digits_val acc (c # cs) = digits_val (acc * 10 + digit_val c) cs"

text \<open>
  The least magnitude that rounds to infinity in single precision: \<open>FLT_MAX\<close> plus half a
  unit in the last place. Underflow, whose reporting the C standard leaves to the
  implementation, is not modelled.
\<close>

definition FLT_OVERFLOW :: real where
  "FLT_OVERFLOW = 2 ^ 128 - 2 ^ 103"

definition starts_with_ci :: "string \<Rightarrow> string \<Rightarrow> bool" where
  "starts_with_ci p s = (length p \<le> length s \<and> map tolower (take (length p) s) = p)"

definition isxdigit :: "char \<Rightarrow> bool" where
  "isxdigit c = (let n = (of_char c :: nat) in
     (48 \<le> n \<and> n \<le> 57) \<or> (65 \<le> n \<and> n \<le> 70) \<or> (97 \<le> n \<and> n \<le> 102))"

text \<open>
  \<open>std::stof\<close> (the standard library's \<open>strtof\<close> with exceptions): leading whitespace is
  skipped, then an optional sign, then the longest decimal number with optional fraction and
  optional exponent; an exponent marker that is not followed by digits is not consumed.
\<close>

definition stof_exponent :: "string \<Rightarrow> int" where
  "stof_exponent r =
     (case r of
        [] \<Rightarrow> 0
      | c # r1 \<Rightarrow>
          if c = CHR ''e'' \<or> c = CHR ''E'' then
            (let (neg, r2) = (case r1 of
                                [] \<Rightarrow> (False, [])
                              | d # r3 \<Rightarrow> if d = CHR ''-'' then (True, r3)
                                          else if d = CHR ''+'' then (False, r3) else (False, r1));
                 ds = takeWhile isdigit r2
             in if ds = [] then 0
                else if neg then - int (digits_val 0 ds) else int (digits_val 0 ds))
          else 0)"

definition stof :: "string \<Rightarrow> error + real" where
  "stof s =
     (let s1 = dropWhile isspace s;
          (neg, s2) = (case s1 of
                         [] \<Rightarrow> (False, [])
                       | c # r \<Rightarrow> if c = CHR ''-'' then (True, r)
                                  else if c = CHR ''+'' then (False, r) else (False, s1));
          ip = takeWhile isdigit s2;
          r1 = dropWhile isdigit s2;
          (fp, r2) = (case r1 of
                        [] \<Rightarrow> ([], [])
                      | c # r \<Rightarrow> if c = CHR ''.'' then (takeWhile isdigit r, dropWhile isdigit r)
                                 else ([], r1))
      in if ip = [] \<and> fp = [] then
           (if starts_with_ci ''inf'' s2 \<or> starts_with_ci ''nan'' s2 then Inl Unmodelled
            else Inl InvalidArgument)
         else if starts_with_ci ''0x'' s2 \<and>
                 (case drop 2 s2 of
                    [] \<Rightarrow> False
                  | c # r \<Rightarrow> isxdigit c \<or> (c = CHR ''.'' \<and> (case r of [] \<Rightarrow> False | d # _ \<Rightarrow> isxdigit d)))
              then Inl Unmodelled
         else
           (let m = real (digits_val 0 (ip @ fp)) / 10 ^ length fp;
                ex = stof_exponent r2;
                v = (if ex \<ge> 0 then m * 10 ^ nat ex else m / 10 ^ nat (- ex))
            in if v \<ge> FLT_OVERFLOW then Inl OutOfRange
               else Inr (if neg then - v else v)))"

text \<open>\<open>CssParser::trim\<close> strips spaces, tabs, line feeds and carriage returns from both ends.\<close>

definition trim_char :: "char \<Rightarrow> bool" where
  "trim_char c = (c = CHR '' '' \<or> c = CHR 0x09 \<or> c = CHR 0x0A \<or> c = CHR 0x0D)"

definition trim :: "string \<Rightarrow> string" where
  "trim str = rev (dropWhile trim_char (rev (dropWhile trim_char str)))"

text \<open>
  \<open>CssUnit\<close> and \<open>CssValue\<close>. The unit \<open>None\<close> of the source is written \<open>None'\<close>, since
  \<open>None\<close> is the constructor of \<open>option\<close>; the fields \<open>value\<close> and \<open>unit\<close> are the selectors
  \<open>cv_value\<close> and \<open>cv_unit\<close>. \<open>toPx\<close> takes the four context arguments explicitly, where
  the source has default arguments \<open>(0, 16, 1024, 768)\<close>.
\<close>

datatype CssUnit = Px | Em | Rem | Percent | Vw | Vh | Auto | None'

datatype CssValue = CssValue (cv_value: real) (cv_unit: CssUnit)

definition toPx :: "CssValue \<Rightarrow> real \<Rightarrow> real \<Rightarrow> real \<Rightarrow> real \<Rightarrow> real" where
  "toPx v parentSize fontSize viewportWidth viewportHeight =
     (case cv_unit v of
        Px \<Rightarrow> cv_value v
      | Em \<Rightarrow> cv_value v * fontSize
      | Rem \<Rightarrow> cv_value v * 16
      | Percent \<Rightarrow> (cv_value v / 100) * parentSize
      | Vw \<Rightarrow> (cv_value v / 100) * viewportWidth
      | Vh \<Rightarrow> (cv_value v / 100) * viewportHeight
      | Auto \<Rightarrow> - 1
      | None' \<Rightarrow> - 1)"

text \<open>
  \<open>CssParser::parseValue\<close>. The index loop over digits and dots is \<open>takeWhile\<close> and
  \<open>dropWhile\<close> on \<open>num_char\<close>; the call of \<open>std::stof\<close> on the numeric part can throw, so
  the result is a sum.
\<close>

definition num_char :: "char \<Rightarrow> bool" where
  "num_char c = (isdigit c \<or> c = CHR ''.'')"

definition parseValue :: "string \<Rightarrow> error + CssValue" where
  "parseValue valueStr =
     (let str = trim valueStr in
      if str = [] then Inr (CssValue 0 Px)
      else if str = ''auto'' then Inr (CssValue 0 Auto)
      else if str = ''none'' \<or> str = ''0'' then Inr (CssValue 0 None')
      else
        let negative = (hd str = CHR ''-'');
            s1 = (if negative then tl str else str);
            num = takeWhile num_char s1;
            rest = dropWhile num_char s1
        in if num = [] then Inr (CssValue 0 Px)
           else case stof num of
                  Inl e \<Rightarrow> Inl e
                | Inr v \<Rightarrow>
                    let value = (if negative then - v else v);
                        unitStr = map tolower (trim rest);
                        unit = (if unitStr = [] \<or> unitStr = ''px'' then Px
                                else if unitStr = ''em'' then Em
                                else if unitStr = ''rem'' then Rem
                                else if unitStr = ''%'' then Percent
                                else if unitStr = ''vw'' then Vw
                                else if unitStr = ''vh'' then Vh
                                else Px)
                    in Inr (CssValue value unit))"




section \<open>Scroll state of a render box (RenderTree.hpp)\<close>

text \<open>
  The enumerations \<open>DisplayType\<close> and \<open>Overflow\<close> of StyleSheet.hpp. \<open>Overflow::Hidden\<close> and
  \<open>Overflow::Auto\<close> are written \<open>OverflowHidden\<close> and \<open>OverflowAuto\<close>, since \<open>Hidden\<close> is
  also a display type and \<open>Auto\<close> a unit.
\<close>

datatype DisplayType = Block | Inline | InlineBlock | Flex | Grid | Hidden | Table | TableRowGroup | TableRow | TableCell

datatype Overflow = Visible | OverflowHidden | Scroll | OverflowAuto

text \<open>
  The part of a \<open>RenderBox\<close> that scrolling reads and writes: the two fields of its computed
  style that decide the branch taken in \<open>layout\<close>, and its four scroll fields.
\<close>

record ScrollBox =
  overflow :: Overflow
  display :: DisplayType
  scrollX :: real
  scrollY :: real
  scrollableWidth :: real
  scrollableHeight :: real

definition maxScrollX :: "ScrollBox \<Rightarrow> real" where
  "maxScrollX b = max 0 (scrollableWidth b)"

definition maxScrollY :: "ScrollBox \<Rightarrow> real" where
  "maxScrollY b = max 0 (scrollableHeight b)"

definition clampScroll :: "ScrollBox \<Rightarrow> ScrollBox" where
  "clampScroll b =
     (let b1 = b\<lparr>scrollX := max 0 (min (scrollX b) (maxScrollX b))\<rparr>
      in b1\<lparr>scrollY := max 0 (min (scrollY b1) (maxScrollY b1))\<rparr>)"





section \<open>Fonts and the glyph hit test (MSDFFont.hpp)\<close>

unbundle bit_operations_syntax

text \<open>
  A font owns an atlas or none (\<open>std::unique_ptr<MSDFAtlas>\<close>); of a glyph only the advance
  and the validity flag matter here, of the atlas only the glyph size and the glyph table.
\<close>

record MSDFGlyph =
  advance :: real
  valid :: bool

record MSDFAtlas =
  glyphSize :: real
  glyphs :: "int \<rightharpoonup> MSDFGlyph"

type_synonym MSDFFont = "MSDFAtlas option"

text \<open>
  \<open>decodeUTF8\<close> reads the code point that starts at byte \<open>i\<close> and returns it with the index
  of its last byte; a lead byte without enough continuation bytes, or a stray continuation
  byte, gives \<open>-1\<close> and leaves the index where it is.
\<close>

definition byte :: "string \<Rightarrow> nat \<Rightarrow> nat" where
  "byte text i = of_char (text ! i)"

definition decodeUTF8 :: "string \<Rightarrow> nat \<Rightarrow> int \<times> nat" where
  "decodeUTF8 text i =
     (let c = byte text i in
      if c AND 0x80 = 0 then (int c, i)
      else if c AND 0xE0 = 0xC0 \<and> i + 1 < length text then
        (int (push_bit 6 (c AND 0x1F) OR (byte text (i + 1) AND 0x3F)), i + 1)
      else if c AND 0xF0 = 0xE0 \<and> i + 2 < length text then
        (int (push_bit 12 (c AND 0x0F) OR push_bit 6 (byte text (i + 1) AND 0x3F)
              OR (byte text (i + 2) AND 0x3F)), i + 2)
      else if c AND 0xF8 = 0xF0 \<and> i + 3 < length text then
        (int (push_bit 18 (c AND 0x07) OR push_bit 12 (byte text (i + 1) AND 0x3F)
              OR push_bit 6 (byte text (i + 2) AND 0x3F) OR (byte text (i + 3) AND 0x3F)), i + 3)
      else (- 1, i))"

lemma decodeUTF8_next: "(cp, i1) = decodeUTF8 text i \<Longrightarrow> i \<le> i1"
  by (auto simp: decodeUTF8_def Let_def split: if_splits)

text \<open>
  The step \<open>x += advance * scale\<close>, taken only when the atlas has a valid glyph for the code
  point.
\<close>

definition add_advance :: "MSDFAtlas \<Rightarrow> real \<Rightarrow> int \<Rightarrow> real \<Rightarrow> real" where
  "add_advance atlas scale cp x =
     (case glyphs atlas cp of
        None \<Rightarrow> x
      | Some g \<Rightarrow> if valid g then x + advance g * scale else x)"

text \<open>
  \<open>MSDFFont::hitTestText\<close>. The \<open>for\<close> loop is \<open>hitTestText_loop\<close>; its variable \<open>i\<close> is
  advanced inside \<open>decodeUTF8\<close> and once more by the loop header. Code points below 32
  (control characters and undecodable bytes) are skipped by \<open>continue\<close>.
\<close>

function hitTestText_loop :: "MSDFAtlas \<Rightarrow> string \<Rightarrow> real \<Rightarrow> real \<Rightarrow> nat \<Rightarrow> real \<Rightarrow> real \<Rightarrow> nat" where
  "hitTestText_loop atlas text localX scale i x prevX =
     (if i < length text then
        (let charStart = i;
             (cp, i1) = decodeUTF8 text i
         in if cp < 32 then hitTestText_loop atlas text localX scale (i1 + 1) x prevX
            else
              (let x1 = add_advance atlas scale cp x;
                   midpoint = prevX + (x1 - prevX) / 2
               in if localX < midpoint then charStart
                  else hitTestText_loop atlas text localX scale (i1 + 1) x1 x1))
      else length text)"
  by pat_completeness auto
termination
  by (relation "measure (\<lambda>(atlas, text, localX, scale, i, x, prevX). length text - i)")
     (auto dest: decodeUTF8_next)

declare hitTestText_loop.simps [simp del]

definition hitTestText :: "MSDFFont \<Rightarrow> string \<Rightarrow> real \<Rightarrow> real \<Rightarrow> nat" where
  "hitTestText font text localX fontSize =
     (case font of
        None \<Rightarrow> 0
      | Some atlas \<Rightarrow>
          if text = [] \<or> localX \<le> 0 then 0
          else hitTestText_loop atlas text localX (fontSize / glyphSize atlas) 0 0 0)"


text \<open>
  The hit test in the words of the specification. \<open>decoded_chars\<close> lists the characters of
  the text with their start indices, \<open>glyph_chars\<close> keeps those that take part in the advance
  (code point at least 32), \<open>char_midpoints\<close> gives each the midpoint of its advance, and
  \<open>first_midpoint_beyond\<close> picks the start index of the first one whose midpoint exceeds
  \<open>localX\<close>, or the length of the text. \<open>hitTestText_claimed\<close> is the hit test as the claim
  words it: 0 for an empty text or a non-positive offset, the first midpoint beyond
  \<open>localX\<close> otherwise; a font without atlas has no advances, so every midpoint is 0 there.
\<close>

function decoded_chars :: "string \<Rightarrow> nat \<Rightarrow> (nat \<times> int) list" where
  "decoded_chars text i =
     (if i < length text then
        (let (cp, i1) = decodeUTF8 text i in (i, cp) # decoded_chars text (i1 + 1))
      else [])"
  by pat_completeness auto
termination
  by (relation "measure (\<lambda>(text, i). length text - i)") (auto dest: decodeUTF8_next)

declare decoded_chars.simps [simp del]

definition glyph_chars :: "string \<Rightarrow> nat \<Rightarrow> (nat \<times> int) list" where
  "glyph_chars text i = filter (\<lambda>(start, cp). 32 \<le> cp) (decoded_chars text i)"

fun char_midpoints :: "MSDFAtlas \<Rightarrow> real \<Rightarrow> real \<Rightarrow> (nat \<times> int) list \<Rightarrow> (nat \<times> real) list" where
  "char_midpoints atlas scale x [] = []"
| "char_midpoints atlas scale x ((start, cp) # cs) =
     (let x1 = add_advance atlas scale cp x
      in (start, x + (x1 - x) / 2) # char_midpoints atlas scale x1 cs)"

definition first_midpoint_beyond :: "string \<Rightarrow> real \<Rightarrow> (nat \<times> real) list \<Rightarrow> nat" where
  "first_midpoint_beyond text localX ms =
     (case find (\<lambda>(start, m). localX < m) ms of
        None \<Rightarrow> length text
      | Some (start, m) \<Rightarrow> start)"

definition hitTestText_claimed :: "MSDFFont \<Rightarrow> string \<Rightarrow> real \<Rightarrow> real \<Rightarrow> nat" where
  "hitTestText_claimed font text localX fontSize =
     (if text = [] \<or> localX \<le> 0 then 0
      else case font of
             None \<Rightarrow> first_midpoint_beyond text localX (map (\<lambda>(start, cp). (start, 0)) (glyph_chars text 0))
           | Some atlas \<Rightarrow>
               first_midpoint_beyond text localX
                 (char_midpoints atlas (fontSize / glyphSize atlas) 0 (glyph_chars text 0)))"

text \<open>An atlas for the examples: glyph size 32, \<open>a\<close> with advance 20 and \<open>b\<close> with advance 10.\<close>

definition testAtlas :: MSDFAtlas where
  "testAtlas = \<lparr>glyphSize = 32,
     glyphs = [97 \<mapsto> \<lparr>advance = 20, valid = True\<rparr>, 98 \<mapsto> \<lparr>advance = 10, valid = True\<rparr>]\<rparr>"

section \<open>DOM nodes, render boxes and the list of text boxes\<close>

text \<open>
  \<open>Node\<close> (Node.hpp): the fields \<open>type\<close>, \<open>tagName\<close>, \<open>textContent\<close> and \<open>children\<close>; the
  attribute map and the parent back-reference play no part below. The field \<open>type\<close> is the
  selector \<open>nodeType\<close> and \<open>children\<close> is \<open>childNodes\<close>.
\<close>

datatype NodeType = Element | Text | Document

datatype Node = Node (nodeType: NodeType) (tagName: string) (textContent: string) (childNodes: "Node list")

text \<open>
  \<open>RenderBox::TextLine\<close>; its fields \<open>text\<close>, \<open>x\<close>, \<open>y\<close>, \<open>width\<close> and \<open>height\<close> carry the
  prefix \<open>line\<close>.
\<close>

record TextLine =
  lineText :: string
  lineX :: real
  lineY :: real
  lineWidth :: real
  lineHeight :: real
  startIndex :: nat

text \<open>
  The part of a \<open>RenderBox\<close> that text selection reads: its node, the font size of its
  computed style, its text lines and its children. Boxes are handled through
  \<open>std::shared_ptr\<close> and compared by address; \<open>boxId\<close> stands for the address.
\<close>

datatype RenderBox =
  RenderBox (boxId: nat) (node: "Node option") (boxFontSize: real)
            (textLines: "TextLine list") (children: "RenderBox list")

text \<open>
  \<open>RenderTree::build\<close> mirrors the DOM: one box per node, children in the same order. The
  counter hands out the addresses.
\<close>

fun build_from :: "nat \<Rightarrow> Node \<Rightarrow> RenderBox \<times> nat" where
  "build_from next (Node t tag txt cs) =
     (let (boxes, next') =
            fold (\<lambda>c (acc, k). (case build_from k c of (b, k') \<Rightarrow> (acc @ [b], k'))) cs ([], next + 1)
      in (RenderBox next (Some (Node t tag txt cs)) 16 [] boxes, next'))"

text \<open>
  \<open>collectTextBoxes\<close> (HtmlParser.hpp) appends to the vector it is given: the box itself when
  its node is a text node with at least one line, then what its children collect, in order.
  \<open>rebuildTextBoxes\<close> is the rebuild of every frame: clear the list and collect from the
  root, which may be null.
\<close>

definition isTextBoxWithLines :: "RenderBox \<Rightarrow> bool" where
  "isTextBoxWithLines box =
     ((case node box of None \<Rightarrow> False | Some n \<Rightarrow> nodeType n = Text) \<and> textLines box \<noteq> [])"

fun collectTextBoxes :: "RenderBox \<Rightarrow> RenderBox list \<Rightarrow> RenderBox list" where
  "collectTextBoxes (RenderBox bid n fs ls cs) textBoxes =
     (let box = RenderBox bid n fs ls cs;
          textBoxes1 =
            (if (case n of None \<Rightarrow> False | Some nd \<Rightarrow> nodeType nd = Text) then
               (if ls \<noteq> [] then textBoxes @ [box] else textBoxes)
             else textBoxes)
      in fold (\<lambda>child acc. collectTextBoxes child acc) cs textBoxes1)"

definition rebuildTextBoxes :: "RenderBox option \<Rightarrow> RenderBox list" where
  "rebuildTextBoxes rootBox = (case rootBox of None \<Rightarrow> [] | Some box \<Rightarrow> collectTextBoxes box [])"

text \<open>
  Pre-order traversal of the render tree and of the DOM, and the relation between a DOM tree
  and the render tree built from it. Layout writes geometry and text lines into the boxes and
  never touches their nodes or children, so the relation holds after every layout as well.
\<close>

fun preorder :: "RenderBox \<Rightarrow> RenderBox list" where
  "preorder (RenderBox bid n fs ls cs) = RenderBox bid n fs ls cs # concat (map preorder cs)"

fun preorderNodes :: "Node \<Rightarrow> Node list" where
  "preorderNodes (Node t tag txt cs) = Node t tag txt cs # concat (map preorderNodes cs)"

fun mirrors :: "Node \<Rightarrow> RenderBox \<Rightarrow> bool" where
  "mirrors (Node t tag txt cs) (RenderBox bid n fs ls bs) =
     (n = Some (Node t tag txt cs) \<and> list_all2 mirrors cs bs)"

text \<open>
  \<open>linesOnlyForContent\<close>: a text box has lines only if its node has content. Both places
  that write text lines (\<open>layoutText\<close> and \<open>layoutTextTokensInline\<close>) clear the list first and
  push a line only for a non-empty piece of the node's text.
\<close>

definition textNodeWithContent :: "Node option \<Rightarrow> bool" where
  "textNodeWithContent n = (case n of None \<Rightarrow> False | Some nd \<Rightarrow> nodeType nd = Text \<and> textContent nd \<noteq> [])"

text \<open>A document and a laid-out render tree for the examples.\<close>

definition line :: "string \<Rightarrow> real \<Rightarrow> real \<Rightarrow> real \<Rightarrow> real \<Rightarrow> TextLine" where
  "line s x y w h = \<lparr>lineText = s, lineX = x, lineY = y, lineWidth = w, lineHeight = h, startIndex = 0\<rparr>"

definition exampleDocument :: Node where
  "exampleDocument =
     Node Document [] []
       [Node Element ''p'' [] [Node Text [] ''alpha'' []],
        Node Element ''p'' [] [Node Text [] [] [], Node Text [] ''beta'' []]]"

definition exampleRenderTree :: RenderBox where
  "exampleRenderTree =
     RenderBox 0 (Some exampleDocument) 16 []
       [RenderBox 1 (Some (Node Element ''p'' [] [Node Text [] ''alpha'' []])) 16 []
          [RenderBox 2 (Some (Node Text [] ''alpha'' [])) 16 [line ''alpha'' 0 0 50 19] []],
        RenderBox 3 (Some (Node Element ''p'' [] [Node Text [] [] [], Node Text [] ''beta'' []])) 16 []
          [RenderBox 4 (Some (Node Text [] [] [])) 16 [] [],
           RenderBox 5 (Some (Node Text [] ''beta'' [])) 16 [line ''beta'' 0 19 40 19] []]]"

definition linesOnlyForContent :: "RenderBox \<Rightarrow> bool" where
  "linesOnlyForContent rootBox =
     (\<forall>box \<in> set (preorder rootBox). \<forall>n. node box = Some n \<and> nodeType n = Text \<and> textLines box \<noteq> []
         \<longrightarrow> textContent n \<noteq> [])"

section \<open>Box model and layout (StyleSheet.hpp, RenderTree.hpp)\<close>

text \<open>
  The structs of the box model. Field names carry the name of their struct as a prefix
  (\<open>rect_x\<close> is \<open>Rect::x\<close>, \<open>edge_top\<close> is \<open>EdgeValues::top\<close>, \<open>style_margin\<close> is
  \<open>ComputedStyle::margin\<close>, \<open>box_content\<close> is \<open>BoxDimensions::content\<close>), since record fields
  are global names here. \<open>ComputedStyle\<close> holds the fields that layout reads; colours,
  the font family, weight, style, decoration and alignment, the positioning offsets and the
  fields of painting are left out.
\<close>

record Rect =
  rect_x :: real
  rect_y :: real
  rect_width :: real
  rect_height :: real

definition rect_bottom :: "Rect \<Rightarrow> real" where
  "rect_bottom r = rect_y r + rect_height r"

record EdgeValues =
  edge_top :: CssValue
  edge_right :: CssValue
  edge_bottom :: CssValue
  edge_left :: CssValue

definition EdgeValues_all :: "CssValue \<Rightarrow> EdgeValues" where
  "EdgeValues_all v = \<lparr>edge_top = v, edge_right = v, edge_bottom = v, edge_left = v\<rparr>"

datatype BoxSizing = ContentBox | BorderBox

record ComputedStyle =
  style_padding :: EdgeValues
  style_margin :: EdgeValues
  style_borderWidth :: EdgeValues
  style_width :: CssValue
  style_height :: CssValue
  style_minWidth :: CssValue
  style_minHeight :: CssValue
  style_maxWidth :: CssValue
  style_maxHeight :: CssValue
  style_fontSize :: real
  style_display :: DisplayType
  style_boxSizing :: BoxSizing
  style_flexDirection :: string
  style_flexWrap :: string
  style_justifyContent :: string
  style_flexGrow :: real
  style_flexShrink :: real
  style_flexBasis :: CssValue
  style_gap :: real
  style_lineHeight :: real
  style_overflow :: Overflow
  style_zIndex :: int
  style_opacity :: real

text \<open>
  The default member initialisers of \<open>ComputedStyle\<close>.
\<close>

definition defaultStyle :: ComputedStyle where
  "defaultStyle =
     \<lparr>style_padding = EdgeValues_all (CssValue 0 Px),
      style_margin = EdgeValues_all (CssValue 0 Px),
      style_borderWidth = EdgeValues_all (CssValue 0 Px),
      style_width = CssValue (- 1) Auto,
      style_height = CssValue (- 1) Auto,
      style_minWidth = CssValue 0 Px,
      style_minHeight = CssValue 0 Px,
      style_maxWidth = CssValue (- 1) Auto,
      style_maxHeight = CssValue (- 1) Auto,
      style_fontSize = 16,
      style_display = Block,
      style_boxSizing = ContentBox,
      style_flexDirection = ''row'',
      style_flexWrap = ''nowrap'',
      style_justifyContent = ''flex-start'',
      style_flexGrow = 0,
      style_flexShrink = 1,
      style_flexBasis = CssValue (- 1) Auto,
      style_gap = 0,
      style_lineHeight = 1.2,
      style_overflow = Visible,
      style_zIndex = 0,
      style_opacity = 1\<rparr>"

text \<open>
  \<open>CssValue::isAuto\<close>, and \<open>toPx\<close> with its default arguments: \<open>toPx0 v\<close> is the call
  \<open>v.toPx()\<close>, and \<open>toPx2 v parentWidth fontSize\<close> is \<open>v.toPx(parentWidth, fontSize)\<close>. The
  padding and margin getters pass their arguments on; the border getters call \<open>toPx()\<close>.
\<close>

definition isAuto :: "CssValue \<Rightarrow> bool" where
  "isAuto v = (cv_unit v = Auto)"

definition toPx0 :: "CssValue \<Rightarrow> real" where
  "toPx0 v = toPx v 0 16 1024 768"

definition toPx2 :: "CssValue \<Rightarrow> real \<Rightarrow> real \<Rightarrow> real" where
  "toPx2 v parentWidth fontSize = toPx v parentWidth fontSize 1024 768"

definition getPaddingTop :: "ComputedStyle \<Rightarrow> real \<Rightarrow> real \<Rightarrow> real" where
  "getPaddingTop st parentWidth fontSize = toPx2 (edge_top (style_padding st)) parentWidth fontSize"

definition getPaddingRight :: "ComputedStyle \<Rightarrow> real \<Rightarrow> real \<Rightarrow> real" where
  "getPaddingRight st parentWidth fontSize = toPx2 (edge_right (style_padding st)) parentWidth fontSize"

definition getPaddingBottom :: "ComputedStyle \<Rightarrow> real \<Rightarrow> real \<Rightarrow> real" where
  "getPaddingBottom st parentWidth fontSize = toPx2 (edge_bottom (style_padding st)) parentWidth fontSize"

definition getPaddingLeft :: "ComputedStyle \<Rightarrow> real \<Rightarrow> real \<Rightarrow> real" where
  "getPaddingLeft st parentWidth fontSize = toPx2 (edge_left (style_padding st)) parentWidth fontSize"

definition getMarginTop :: "ComputedStyle \<Rightarrow> real \<Rightarrow> real \<Rightarrow> real" where
  "getMarginTop st parentWidth fontSize = toPx2 (edge_top (style_margin st)) parentWidth fontSize"

definition getMarginRight :: "ComputedStyle \<Rightarrow> real \<Rightarrow> real \<Rightarrow> real" where
  "getMarginRight st parentWidth fontSize = toPx2 (edge_right (style_margin st)) parentWidth fontSize"

definition getMarginBottom :: "ComputedStyle \<Rightarrow> real \<Rightarrow> real \<Rightarrow> real" where
  "getMarginBottom st parentWidth fontSize = toPx2 (edge_bottom (style_margin st)) parentWidth fontSize"

definition getMarginLeft :: "ComputedStyle \<Rightarrow> real \<Rightarrow> real \<Rightarrow> real" where
  "getMarginLeft st parentWidth fontSize = toPx2 (edge_left (style_margin st)) parentWidth fontSize"

definition getBorderTopWidth :: "ComputedStyle \<Rightarrow> real" where
  "getBorderTopWidth st = toPx0 (edge_top (style_borderWidth st))"

definition getBorderRightWidth :: "ComputedStyle \<Rightarrow> real" where
  "getBorderRightWidth st = toPx0 (edge_right (style_borderWidth st))"

definition getBorderBottomWidth :: "ComputedStyle \<Rightarrow> real" where
  "getBorderBottomWidth st = toPx0 (edge_bottom (style_borderWidth st))"

definition getBorderLeftWidth :: "ComputedStyle \<Rightarrow> real" where
  "getBorderLeftWidth st = toPx0 (edge_left (style_borderWidth st))"

text \<open>
  \<open>BoxDimensions\<close> and \<open>borderBox()\<close>, which resolves the stored padding and border values
  with \<open>toPx()\<close>, that is without the containing width and font size.
\<close>

record BoxDimensions =
  box_content :: Rect
  box_padding :: EdgeValues
  box_border :: EdgeValues
  box_margin :: EdgeValues

definition borderBox :: "BoxDimensions \<Rightarrow> Rect" where
  "borderBox b =
     \<lparr>rect_x = rect_x (box_content b) - toPx0 (edge_left (box_padding b)) - toPx0 (edge_left (box_border b)),
      rect_y = rect_y (box_content b) - toPx0 (edge_top (box_padding b)) - toPx0 (edge_top (box_border b)),
      rect_width = rect_width (box_content b) + toPx0 (edge_left (box_padding b))
                   + toPx0 (edge_right (box_padding b)) + toPx0 (edge_left (box_border b))
                   + toPx0 (edge_right (box_border b)),
      rect_height = rect_height (box_content b) + toPx0 (edge_top (box_padding b))
                    + toPx0 (edge_bottom (box_padding b)) + toPx0 (edge_top (box_border b))
                    + toPx0 (edge_bottom (box_border b))\<rparr>"

text \<open>
  A render box as layout sees it. \<open>lb_nodeStyle\<close> is what \<open>styleSheet.computeStyle\<close> gives
  for the node of the box, with the inherited text properties; it depends on the document and
  the style sheet only. \<open>lb_computedStyle\<close> is the member \<open>computedStyle\<close>, which \<open>layout\<close>
  overwrites; before the first layout of a box it holds the defaults. \<open>lb_isCheckable\<close> and
  \<open>lb_isCheckbox\<close> say whether the node is an \<open>input\<close> element of type checkbox or radio,
  respectively checkbox. \<open>lb_availableWidth\<close> is not a field of the source: it records the
  available width that the last call of \<open>layout\<close> was given.

  \<open>LayoutEnv\<close> collects what layout takes from parts of the engine that are not modelled:
  the two intrinsic-width measurements, the content width that the rules for form elements
  impose, the content height that laying out the text or the children of a box yields (after
  the rules for form elements), the geometry and height that \<open>layoutInlineChildren\<close> and
  \<open>layoutInlineGroup\<close> give a run of inline boxes, and the viewport.
\<close>

record LayoutBox =
  lb_nodeStyle :: ComputedStyle
  lb_computedStyle :: ComputedStyle
  lb_isText :: bool
  lb_isCheckable :: bool
  lb_isCheckbox :: bool
  lb_box :: BoxDimensions
  lb_frame :: Rect
  lb_availableWidth :: real

record LayoutEnv =
  env_measureIntrinsicWidth :: "LayoutBox \<Rightarrow> real"
  env_measureTableIntrinsicWidth :: "LayoutBox \<Rightarrow> real"
  env_formWidth :: "LayoutBox \<Rightarrow> real option"
  env_contentHeight :: "LayoutBox \<Rightarrow> real \<Rightarrow> real \<Rightarrow> real \<Rightarrow> real"
  env_inlineChildren :: "LayoutBox list \<Rightarrow> real \<Rightarrow> real \<Rightarrow> real \<Rightarrow> (BoxDimensions \<times> Rect) list \<times> real"
  env_inlineGroup :: "LayoutBox list \<Rightarrow> real \<Rightarrow> real \<Rightarrow> real \<Rightarrow> (BoxDimensions \<times> Rect) list \<times> real"
  env_viewportWidth :: real
  env_viewportHeight :: real

text \<open>
  A box as \<open>RenderTree::build\<close> leaves it, for a node with the given style.
\<close>

definition zeroRect :: Rect where
  "zeroRect = \<lparr>rect_x = 0, rect_y = 0, rect_width = 0, rect_height = 0\<rparr>"

definition newBox :: "ComputedStyle \<Rightarrow> bool \<Rightarrow> LayoutBox" where
  "newBox st isText =
     \<lparr>lb_nodeStyle = st, lb_computedStyle = defaultStyle, lb_isText = isText,
      lb_isCheckable = False, lb_isCheckbox = False,
      lb_box = \<lparr>box_content = zeroRect, box_padding = EdgeValues_all (CssValue 0 Px),
                 box_border = EdgeValues_all (CssValue 0 Px), box_margin = EdgeValues_all (CssValue 0 Px)\<rparr>,
      lb_frame = zeroRect, lb_availableWidth = 0\<rparr>"

text \<open>
  \<open>RenderBox::layout\<close>, without the scroll extent (modelled above) and with the layout of the
  content taken from the environment. The computed style is stored; a box with
  \<open>display: none\<close> gets an empty frame and is left alone otherwise; else the edges are
  resolved against the available width and the font size, the box model is stored, the content
  box is placed and sized, and the frame becomes the border box.
\<close>

definition layout :: "LayoutEnv \<Rightarrow> LayoutBox \<Rightarrow> real \<Rightarrow> real \<Rightarrow> real \<Rightarrow> bool \<Rightarrow> LayoutBox" where
  "layout env b0 x y availableWidth inInlineFlow =
     (let style = lb_nodeStyle b0;
          b = b0\<lparr>lb_computedStyle := style, lb_availableWidth := availableWidth\<rparr>
      in if style_display style = Hidden then
           b\<lparr>lb_frame := \<lparr>rect_x = x, rect_y = y, rect_width = 0, rect_height = 0\<rparr>\<rparr>
         else
           let fontSize = style_fontSize style;
               parentWidth = availableWidth;
               vw = env_viewportWidth env;
               vh = env_viewportHeight env;
               marginTop = getMarginTop style parentWidth fontSize;
               marginRight0 = getMarginRight style parentWidth fontSize;
               marginBottom = getMarginBottom style parentWidth fontSize;
               marginLeft = getMarginLeft style parentWidth fontSize;
               checkable = lb_isCheckable b;
               paddingTop = (if checkable then 0 else getPaddingTop style parentWidth fontSize);
               paddingRight = (if checkable then 0 else getPaddingRight style parentWidth fontSize);
               paddingBottom = (if checkable then 0 else getPaddingBottom style parentWidth fontSize);
               paddingLeft = (if checkable then 0 else getPaddingLeft style parentWidth fontSize);
               borderTop = (if checkable then 0 else getBorderTopWidth style);
               borderRight = (if checkable then 0 else getBorderRightWidth style);
               borderBottom = (if checkable then 0 else getBorderBottomWidth style);
               borderLeft = (if checkable then 0 else getBorderLeftWidth style);
               marginRight = (if checkable \<and> lb_isCheckbox b then marginRight0 + 4 else marginRight0);
               box1 =
                 (if checkable then
                    (let bx = (lb_box b)\<lparr>box_padding := EdgeValues_all (CssValue 0 Px),
                                           box_border := EdgeValues_all (CssValue 0 Px)\<rparr>
                     in if lb_isCheckbox b then
                          bx\<lparr>box_margin := (style_margin style)\<lparr>edge_right := CssValue 4 Px\<rparr>\<rparr>
                        else bx)
                  else (lb_box b)\<lparr>box_margin := style_margin style,
                                    box_padding := style_padding style,
                                    box_border := style_borderWidth style\<rparr>);
               contentStartX = x + marginLeft + borderLeft + paddingLeft;
               contentStartY = y + marginTop + borderTop + paddingTop;
               totalHorizontalSpace =
                 marginLeft + borderLeft + paddingLeft + paddingRight + borderRight + marginRight;
               contentWidth0 =
                 (if \<not> isAuto (style_width style) \<and> cv_value (style_width style) \<ge> 0 then
                    (let w = toPx (style_width style) parentWidth fontSize vw vh
                     in if style_boxSizing style = BorderBox
                        then w - (paddingLeft + paddingRight + borderLeft + borderRight) else w)
                  else if style_display style = Inline \<or> style_display style = InlineBlock
                          \<or> style_display style = Table then
                    (if style_display style = Table then
                       env_measureTableIntrinsicWidth env b
                         - (paddingLeft + paddingRight + borderLeft + borderRight)
                     else env_measureIntrinsicWidth env b)
                  else if lb_isText b \<and> inInlineFlow then env_measureIntrinsicWidth env b
                  else availableWidth - totalHorizontalSpace);
               contentWidth1 = (if contentWidth0 < 0 then 0 else contentWidth0);
               contentWidth2 =
                 (if \<not> isAuto (style_minWidth style) \<and> cv_value (style_minWidth style) > 0
                  then max contentWidth1 (toPx (style_minWidth style) parentWidth fontSize vw vh)
                  else contentWidth1);
               contentWidth3 =
                 (if \<not> isAuto (style_maxWidth style) \<and> cv_value (style_maxWidth style) > 0
                  then min contentWidth2 (toPx (style_maxWidth style) parentWidth fontSize vw vh)
                  else contentWidth2);
               contentHeight0 = env_contentHeight env b contentStartX contentStartY contentWidth3;
               contentWidth =
                 (case env_formWidth env b of None \<Rightarrow> contentWidth3 | Some w \<Rightarrow> w);
               contentHeight1 =
                 (if \<not> isAuto (style_height style) \<and> cv_value (style_height style) \<ge> 0 then
                    (let h = toPx (style_height style) parentWidth fontSize vw vh
                     in if style_boxSizing style = BorderBox
                        then h - (paddingTop + paddingBottom + borderTop + borderBottom) else h)
                  else contentHeight0);
               contentHeight2 =
                 (if \<not> isAuto (style_minHeight style) \<and> cv_value (style_minHeight style) > 0
                  then max contentHeight1 (toPx (style_minHeight style) parentWidth fontSize vw vh)
                  else contentHeight1);
               contentHeight =
                 (if \<not> isAuto (style_maxHeight style) \<and> cv_value (style_maxHeight style) > 0
                     \<and> contentHeight2 > toPx (style_maxHeight style) parentWidth fontSize vw vh
                  then toPx (style_maxHeight style) parentWidth fontSize vw vh
                  else contentHeight2);
               box2 = box1\<lparr>box_content := \<lparr>rect_x = contentStartX, rect_y = contentStartY,
                                              rect_width = contentWidth, rect_height = contentHeight\<rparr>\<rparr>
           in b\<lparr>lb_box := box2, lb_frame := borderBox box2\<rparr>)"

text \<open>
  \<open>RenderBox::layoutBlockChildren\<close>. \<open>block_loop\<close> is its \<open>while\<close> loop: a run of inline
  children is handed to \<open>layoutInlineGroup\<close> and resets the previous bottom margin; a block
  child is laid out at the vertical position that collapses its top margin with the previous
  bottom margin, and the cursor moves to the bottom of its border box plus its bottom margin.
\<close>

definition isInlineContext :: "LayoutBox \<Rightarrow> bool" where
  "isInlineContext c =
     (style_display (lb_nodeStyle c) = Inline \<or> style_display (lb_nodeStyle c) = InlineBlock
      \<or> lb_isText c)"

definition place_group :: "LayoutBox list \<Rightarrow> (BoxDimensions \<times> Rect) list \<Rightarrow> LayoutBox list" where
  "place_group grp geo =
     map (\<lambda>i. if i < length geo
                then (grp ! i)\<lparr>lb_box := fst (geo ! i), lb_frame := snd (geo ! i)\<rparr>
                else grp ! i) [0..<length grp]"

function block_loop :: "LayoutEnv \<Rightarrow> real \<Rightarrow> real \<Rightarrow> real \<Rightarrow> real \<Rightarrow> LayoutBox list
                        \<Rightarrow> LayoutBox list \<times> real" where
  "block_loop env x width currentY prevMarginBottom [] = ([], currentY)"
| "block_loop env x width currentY prevMarginBottom (child # rest) =
     (if isInlineContext child then
        (let inlineGroup = takeWhile isInlineContext (child # rest);
             remaining = dropWhile isInlineContext (child # rest);
             (geo, h) = env_inlineGroup env inlineGroup x currentY width;
             (out, finalY) = block_loop env x width (currentY + h) 0 remaining
         in (place_group inlineGroup geo @ out, finalY))
      else
        (let childStyle = lb_nodeStyle child;
             childMarginTop = getMarginTop childStyle width (style_fontSize childStyle);
             childMarginBottom = getMarginBottom childStyle width (style_fontSize childStyle);
             collapsedMargin = max prevMarginBottom childMarginTop;
             marginBoxY = currentY - prevMarginBottom + collapsedMargin - childMarginTop;
             child' = layout env child x marginBoxY width False;
             currentY' = rect_bottom (borderBox (lb_box child')) + childMarginBottom;
             (out, finalY) = block_loop env x width currentY' childMarginBottom rest
         in (child' # out, finalY)))"
  by pat_completeness auto

termination
  by (relation "measure (\<lambda>(env, x, width, currentY, prevMarginBottom, cs). length cs)")
     (auto simp: length_dropWhile_le less_Suc_eq_le)

declare block_loop.simps(2) [simp del]

definition isInlineElement :: "LayoutBox \<Rightarrow> bool" where
  "isInlineElement c =
     (style_display (lb_nodeStyle c) = Inline \<or> style_display (lb_nodeStyle c) = InlineBlock)"

definition layoutBlockChildren :: "LayoutEnv \<Rightarrow> LayoutBox list \<Rightarrow> real \<Rightarrow> real \<Rightarrow> real
                                    \<Rightarrow> LayoutBox list \<times> real" where
  "layoutBlockChildren env childBoxes x y width =
     (let allInline = list_all isInlineContext childBoxes;
          hasInlineElements = list_ex isInlineElement childBoxes
      in if allInline \<and> childBoxes \<noteq> [] \<and> hasInlineElements then
           (let (geo, h) = env_inlineChildren env childBoxes x y width
            in (place_group childBoxes geo, h))
         else
           (let (out, currentY) = block_loop env x width y 0 childBoxes
            in (out, currentY - y)))"

text \<open>
  For stating the margin-collapsing property: the vertical distance between the border boxes
  of two boxes, the two margins as the loop resolves them, and the difference between the top
  padding that \<open>layout\<close> resolves (against the available width and the font size) and the one
  that \<open>borderBox()\<close> resolves (against width 0 and font size 16).
\<close>

definition paddingTopDrift :: "LayoutBox \<Rightarrow> real \<Rightarrow> real" where
  "paddingTopDrift c width =
     (if lb_isCheckable c then 0
      else getPaddingTop (lb_nodeStyle c) width (style_fontSize (lb_nodeStyle c))
           - toPx0 (edge_top (style_padding (lb_nodeStyle c))))"

definition borderBoxGap :: "LayoutBox \<Rightarrow> LayoutBox \<Rightarrow> real" where
  "borderBoxGap a b = rect_y (borderBox (lb_box b)) - rect_bottom (borderBox (lb_box a))"

definition marginTopOf :: "LayoutBox \<Rightarrow> real \<Rightarrow> real" where
  "marginTopOf c width = getMarginTop (lb_nodeStyle c) width (style_fontSize (lb_nodeStyle c))"

definition marginBottomOf :: "LayoutBox \<Rightarrow> real \<Rightarrow> real" where
  "marginBottomOf c width = getMarginBottom (lb_nodeStyle c) width (style_fontSize (lb_nodeStyle c))"

text \<open>
  Examples: an environment in which every box has content height 30, and two block boxes with
  margins of 20px above and below, the second of them with a top padding of 10 percent.
\<close>

definition simpleEnv :: LayoutEnv where
  "simpleEnv =
     \<lparr>env_measureIntrinsicWidth = (\<lambda>b. 0),
      env_measureTableIntrinsicWidth = (\<lambda>b. 0),
      env_formWidth = (\<lambda>b. None),
      env_contentHeight = (\<lambda>b x y w. 30),
      env_inlineChildren = (\<lambda>cs x y w. ([], 0)),
      env_inlineGroup = (\<lambda>cs x y w. ([], 0)),
      env_viewportWidth = 1024,
      env_viewportHeight = 768\<rparr>"

definition marginStyle :: "CssValue \<Rightarrow> CssValue \<Rightarrow> CssValue \<Rightarrow> ComputedStyle" where
  "marginStyle mt mb pt =
     defaultStyle\<lparr>style_margin := (EdgeValues_all (CssValue 0 Px))\<lparr>edge_top := mt, edge_bottom := mb\<rparr>,
                  style_padding := (EdgeValues_all (CssValue 0 Px))\<lparr>edge_top := pt\<rparr>\<rparr>"

definition blockA :: LayoutBox where
  "blockA = newBox (marginStyle (CssValue 20 Px) (CssValue 20 Px) (CssValue 0 Px)) False"

definition blockB :: LayoutBox where
  "blockB = newBox (marginStyle (CssValue 20 Px) (CssValue 20 Px) (CssValue 10 Percent)) False"

text \<open>
  \<open>RenderBox::layoutFlexChildren\<close>. The first pass measures each child
  (\<open>flexIntrinsicSize\<close>), reading the flex-grow factor from the child's \<open>computedStyle\<close> member;
  the children are then put on lines (\<open>flexWrapLines\<close> when wrapping, \<open>flexSingleLine\<close>
  otherwise); \<open>flexLayoutLines\<close> handles justify-content for each line, and \<open>flexLayoutLine\<close>
  gives each child of a line its share of the free space and lays it out. The variable
  \<open>gap\<close>, which the justify-content cases overwrite, is passed from line to line.
\<close>

record FlexLine =
  line_childIndices :: "nat list"
  line_totalSize :: real
  line_totalFlexGrow :: real
  line_crossSize :: real

definition emptyFlexLine :: FlexLine where
  "emptyFlexLine = \<lparr>line_childIndices = [], line_totalSize = 0, line_totalFlexGrow = 0, line_crossSize = 0\<rparr>"


fun flexWrapLines :: "LayoutBox list \<Rightarrow> real list \<Rightarrow> real \<Rightarrow> real \<Rightarrow> nat list
                       \<Rightarrow> FlexLine list \<Rightarrow> FlexLine \<Rightarrow> real \<Rightarrow> FlexLine list" where
  "flexWrapLines childBoxes intrinsicSizes gap width [] lines currentLine lineSize =
     (if line_childIndices currentLine \<noteq> []
      then lines @ [currentLine\<lparr>line_totalSize := lineSize\<rparr>] else lines)"
| "flexWrapLines childBoxes intrinsicSizes gap width (i # rest) lines currentLine lineSize =
     (let childSize = intrinsicSizes ! i;
          sizeWithGap = childSize + (if line_childIndices currentLine = [] then 0 else gap);
          wrap = (line_childIndices currentLine \<noteq> [] \<and> lineSize + sizeWithGap > width);
          lines1 = (if wrap then lines @ [currentLine\<lparr>line_totalSize := lineSize\<rparr>] else lines);
          currentLine1 = (if wrap then emptyFlexLine else currentLine);
          lineSize1 = (if wrap then 0 else lineSize);
          sizeWithGap1 = (if wrap then childSize else sizeWithGap);
          currentLine2 = currentLine1\<lparr>
             line_childIndices := line_childIndices currentLine1 @ [i],
             line_totalFlexGrow := line_totalFlexGrow currentLine1
                                     + style_flexGrow (lb_computedStyle (childBoxes ! i))\<rparr>
      in flexWrapLines childBoxes intrinsicSizes gap width rest lines1 currentLine2 (lineSize1 + sizeWithGap1))"


fun flexLayoutLine :: "LayoutEnv \<Rightarrow> bool \<Rightarrow> real list \<Rightarrow> FlexLine \<Rightarrow> real \<Rightarrow> real \<Rightarrow> real \<Rightarrow> real \<Rightarrow> real
                        \<Rightarrow> nat list \<Rightarrow> LayoutBox list \<Rightarrow> real \<Rightarrow> real \<Rightarrow> LayoutBox list \<times> real \<times> real" where
  "flexLayoutLine env isRow intrinsicSizes fline freeSpace gap x currentY_line width [] childBoxes currentPos maxCrossSize =
     (childBoxes, currentPos, maxCrossSize)"
| "flexLayoutLine env isRow intrinsicSizes fline freeSpace gap x currentY_line width (idx # rest) childBoxes currentPos maxCrossSize =
     (let child = childBoxes ! idx;
          extraSize = (if line_totalFlexGrow fline > 0
                       then (freeSpace * style_flexGrow (lb_computedStyle child)) / line_totalFlexGrow fline
                       else 0)
      in if isRow then
           (let childWidth = intrinsicSizes ! idx + extraSize;
                child' = layout env child (x + currentPos) currentY_line childWidth False
            in flexLayoutLine env isRow intrinsicSizes fline freeSpace gap x currentY_line width rest
                 (childBoxes[idx := child'])
                 (currentPos + rect_width (lb_frame child') + gap)
                 (max maxCrossSize (rect_height (lb_frame child'))))
         else
           (let child' = layout env child x (currentY_line + currentPos) width False
            in flexLayoutLine env isRow intrinsicSizes fline freeSpace gap x currentY_line width rest
                 (childBoxes[idx := child'])
                 (currentPos + rect_height (lb_frame child') + gap)
                 (max maxCrossSize (rect_width (lb_frame child')))))"

fun flexLayoutLines :: "LayoutEnv \<Rightarrow> ComputedStyle \<Rightarrow> bool \<Rightarrow> real list \<Rightarrow> real \<Rightarrow> real
                         \<Rightarrow> FlexLine list \<Rightarrow> LayoutBox list \<Rightarrow> real \<Rightarrow> real \<Rightarrow> real
                         \<Rightarrow> LayoutBox list \<times> real \<times> real \<times> FlexLine list" where
  "flexLayoutLines env style isRow intrinsicSizes x width [] childBoxes gap currentY_line maxWidth =
     (childBoxes, gap, currentY_line, [])"
| "flexLayoutLines env style isRow intrinsicSizes x width (fline # flines) childBoxes gap currentY_line maxWidth =
     (let freeSpace0 = width - line_totalSize fline;
          freeSpace = (if freeSpace0 < 0 then 0 else freeSpace0);
          n = length (line_childIndices fline);
          jc = style_justifyContent style;
          currentPos =
            (if jc = ''center'' then freeSpace / 2
             else if jc = ''flex-end'' then freeSpace
             else if jc = ''space-between'' \<and> n > 1 then 0
             else if jc = ''space-around'' \<and> line_childIndices fline \<noteq> [] then (freeSpace / real n) / 2
             else 0);
          gap1 =
            (if jc = ''center'' then gap
             else if jc = ''flex-end'' then gap
             else if jc = ''space-between'' \<and> n > 1 then freeSpace / real (n - 1)
             else if jc = ''space-around'' \<and> line_childIndices fline \<noteq> [] then style_gap style + freeSpace / real n
             else gap);
          (childBoxes1, currentPos1, maxCrossSize) =
            flexLayoutLine env isRow intrinsicSizes fline freeSpace gap1 x currentY_line width
              (line_childIndices fline) childBoxes currentPos 0;
          fline1 = fline\<lparr>line_crossSize := maxCrossSize\<rparr>;
          currentY_line1 = (if isRow then currentY_line + maxCrossSize + gap1 else currentY_line);
          maxWidth1 = (if isRow then max maxWidth (currentPos1 - gap1) else maxWidth);
          (childBoxes2, gap2, currentY_line2, flines2) =
            flexLayoutLines env style isRow intrinsicSizes x width flines childBoxes1 gap1 currentY_line1 maxWidth1
      in (childBoxes2, gap2, currentY_line2, fline1 # flines2))"




declare flexLayoutLine.simps [simp del] flexLayoutLines.simps [simp del] flexWrapLines.simps [simp del]

section \<open>Applying declarations to a computed style (StyleSheet.hpp)\<close>

text \<open>
  \<open>std::stoi\<close> in base 10: leading whitespace, an optional sign and the longest run of
  digits; \<open>std::invalid_argument\<close> without a digit, \<open>std::out_of_range\<close> outside the range
  of \<open>int\<close>.
\<close>

definition stoi :: "string \<Rightarrow> error + int" where
  "stoi s =
     (let s1 = dropWhile isspace s;
          (neg, s2) = (case s1 of
                         [] \<Rightarrow> (False, [])
                       | c # r \<Rightarrow> if c = CHR ''-'' then (True, r)
                                  else if c = CHR ''+'' then (False, r) else (False, s1));
          ds = takeWhile isdigit s2
      in if ds = [] then Inl InvalidArgument
         else (let v = (if neg then - int (digits_val 0 ds) else int (digits_val 0 ds))
               in if v < - (2 ^ 31) \<or> v > 2 ^ 31 - 1 then Inl OutOfRange else Inr v))"

text \<open>
  \<open>CssParser::splitValues\<close> reads whitespace-separated words from a string stream.
\<close>

function splitValues :: "string \<Rightarrow> string list" where
  "splitValues str =
     (let s1 = dropWhile isspace str
      in if s1 = [] then []
         else takeWhile (\<lambda>c. \<not> isspace c) s1 # splitValues (dropWhile (\<lambda>c. \<not> isspace c) s1))"
  by pat_completeness auto
termination
proof (relation "measure length")
  show "wf (measure length)" by simp
next
  fix str s1 :: string
  assume a: "s1 = dropWhile isspace str" "s1 \<noteq> []"
  have h: "\<not> isspace (hd s1)" using a hd_dropWhile[of isspace str] by simp
  have "s1 = hd s1 # tl s1" using a(2) by simp
  then have "dropWhile (\<lambda>c. \<not> isspace c) s1 = dropWhile (\<lambda>c. \<not> isspace c) (tl s1)"
    using h by (metis dropWhile.simps(2))
  then have "length (dropWhile (\<lambda>c. \<not> isspace c) s1) \<le> length (tl s1)"
    using length_dropWhile_le[of "\<lambda>c. \<not> isspace c" "tl s1"] by (simp del: length_tl)
  moreover have "length (tl s1) < length s1" using a(2) by simp
  moreover have "length s1 \<le> length str" using a(1) by (simp add: length_dropWhile_le)
  ultimately show "(dropWhile (\<lambda>c. \<not> isspace c) s1, str) \<in> measure length" by simp
qed

declare splitValues.simps [simp del]

text \<open>
  An exception thrown by a call is passed on; \<open>bind\<close> sequences two steps that may throw.
  The shorthand parsers assign their results through reference parameters; here they return
  them.
\<close>

definition bind :: "error + 'a \<Rightarrow> ('a \<Rightarrow> error + 'b) \<Rightarrow> error + 'b" where
  "bind r f = (case r of Inl e \<Rightarrow> Inl e | Inr v \<Rightarrow> f v)"

definition parse2ValueShorthand :: "string \<Rightarrow> error + (CssValue \<times> CssValue)" where
  "parse2ValueShorthand valueStr =
     (let parts = splitValues valueStr in
      if parts = [] then Inr (CssValue 0 Px, CssValue 0 Px)
      else if length parts = 1 then bind (parseValue (parts ! 0)) (\<lambda>v. Inr (v, v))
      else bind (parseValue (parts ! 0)) (\<lambda>a. bind (parseValue (parts ! 1)) (\<lambda>b. Inr (a, b))))"

definition parse4ValueShorthand :: "string \<Rightarrow> error + EdgeValues" where
  "parse4ValueShorthand valueStr =
     (let parts = splitValues valueStr in
      if parts = [] then Inr (EdgeValues_all (CssValue 0 Px))
      else if length parts = 1 then bind (parseValue (parts ! 0)) (\<lambda>v. Inr (EdgeValues_all v))
      else if length parts = 2 then
        bind (parseValue (parts ! 0)) (\<lambda>tb. bind (parseValue (parts ! 1)) (\<lambda>rl.
          Inr \<lparr>edge_top = tb, edge_right = rl, edge_bottom = tb, edge_left = rl\<rparr>))
      else if length parts = 3 then
        bind (parseValue (parts ! 0)) (\<lambda>t. bind (parseValue (parts ! 1)) (\<lambda>rl.
          bind (parseValue (parts ! 2)) (\<lambda>b.
            Inr \<lparr>edge_top = t, edge_right = rl, edge_bottom = b, edge_left = rl\<rparr>)))
      else
        bind (parseValue (parts ! 0)) (\<lambda>t. bind (parseValue (parts ! 1)) (\<lambda>r.
          bind (parseValue (parts ! 2)) (\<lambda>b. bind (parseValue (parts ! 3)) (\<lambda>l.
            Inr \<lparr>edge_top = t, edge_right = r, edge_bottom = b, edge_left = l\<rparr>)))))"

text \<open>
  \<open>std::string::find(pattern) != npos\<close>.
\<close>

fun contains :: "string \<Rightarrow> string \<Rightarrow> bool" where
  "contains [] pat = (pat = [])"
| "contains (c # cs) pat = (take (length pat) (c # cs) = pat \<or> contains cs pat)"

text \<open>
  The \<open>flex\<close> shorthand. Its token loop is the only place of \<open>applyProperty\<close> with a
  \<open>try\<close> block: a token that fails to convert is caught; for the first token the handler
  stores it as flex-basis (through \<open>parseValue\<close>, which may throw in its turn) and leaves the
  loop, for a later token the loop goes on with the next one.
\<close>

fun flexTokens :: "string list \<Rightarrow> nat \<Rightarrow> ComputedStyle \<Rightarrow> error + (ComputedStyle \<times> nat)" where
  "flexTokens [] tokenCount style = Inr (style, tokenCount)"
| "flexTokens (token # rest) tokenCount style =
     (if tokenCount < 3 then
        (let attempt =
               (if tokenCount = 0 then bind (stof token) (\<lambda>v. Inr (style\<lparr>style_flexGrow := v\<rparr>))
                else if tokenCount = 1 then bind (stof token) (\<lambda>v. Inr (style\<lparr>style_flexShrink := v\<rparr>))
                else bind (parseValue token) (\<lambda>v. Inr (style\<lparr>style_flexBasis := v\<rparr>)))
         in case attempt of
              Inr style' \<Rightarrow> flexTokens rest (tokenCount + 1) style'
            | Inl e \<Rightarrow>
                if tokenCount = 0 then
                  bind (parseValue token) (\<lambda>v. Inr (style\<lparr>style_flexBasis := v\<rparr>, tokenCount))
                else flexTokens rest tokenCount style)
      else Inr (style, tokenCount))"

definition apply_flex :: "string \<Rightarrow> ComputedStyle \<Rightarrow> error + ComputedStyle" where
  "apply_flex value style =
     (let v = trim value in
      if v = ''auto'' then
        bind (parseValue ''auto'') (\<lambda>b. Inr (style\<lparr>style_flexGrow := 1, style_flexShrink := 1, style_flexBasis := b\<rparr>))
      else if v = ''none'' then
        bind (parseValue ''auto'') (\<lambda>b. Inr (style\<lparr>style_flexGrow := 0, style_flexShrink := 0, style_flexBasis := b\<rparr>))
      else
        bind (flexTokens (splitValues v) 0 style) (\<lambda>(style1, tokenCount).
          if tokenCount = 1 \<and> style_flexGrow style1 > 0 then
            bind (parseValue ''0%'') (\<lambda>b. Inr (style1\<lparr>style_flexShrink := 1, style_flexBasis := b\<rparr>))
          else Inr style1))"

text \<open>
  \<open>StyleSheet::applyProperty\<close>, on the fields of \<open>ComputedStyle\<close> modelled here. The
  properties of \<open>unmodelledProperties\<close> parse colours, which is outside this model; for them
  the result is \<open>Inl Unmodelled\<close>. The properties of \<open>discardedValueProperties\<close> parse a
  value with \<open>parseValue\<close> and store it in a field that is not modelled. Every other
  property that the source handles and that is not listed below (font weight and style, text
  decoration and alignment, position, user-select, object-fit and -position, image-rendering,
  vertical-align) compares strings and writes fields that are not modelled, as does an unknown
  property: the style is returned as it is.
\<close>

definition unmodelledProperties :: "string list" where
  "unmodelledProperties =
     [''border'', ''border-top'', ''border-right'', ''border-bottom'', ''border-left'',
      ''border-color'', ''border-top-color'', ''border-right-color'', ''border-bottom-color'',
      ''border-left-color'', ''color'', ''background-color'', ''background'']"

definition discardedValueProperties :: "string list" where
  "discardedValueProperties =
     [''border-radius'', ''border-top-left-radius'', ''border-top-right-radius'',
      ''border-bottom-left-radius'', ''border-bottom-right-radius'',
      ''top'', ''right'', ''bottom'', ''left'']"

definition applyProperty :: "string \<Rightarrow> string \<Rightarrow> ComputedStyle \<Rightarrow> error + ComputedStyle" where
  "applyProperty property value style =
     (let pad = style_padding style; mar = style_margin style; bw = style_borderWidth style in
      if property = ''padding'' then
        bind (parse4ValueShorthand value) (\<lambda>e. Inr (style\<lparr>style_padding := e\<rparr>))
      else if property = ''padding-top'' \<or> property = ''padding-block-start'' then
        bind (parseValue value) (\<lambda>v. Inr (style\<lparr>style_padding := pad\<lparr>edge_top := v\<rparr>\<rparr>))
      else if property = ''padding-right'' \<or> property = ''padding-inline-end'' then
        bind (parseValue value) (\<lambda>v. Inr (style\<lparr>style_padding := pad\<lparr>edge_right := v\<rparr>\<rparr>))
      else if property = ''padding-bottom'' \<or> property = ''padding-block-end'' then
        bind (parseValue value) (\<lambda>v. Inr (style\<lparr>style_padding := pad\<lparr>edge_bottom := v\<rparr>\<rparr>))
      else if property = ''padding-left'' \<or> property = ''padding-inline-start'' then
        bind (parseValue value) (\<lambda>v. Inr (style\<lparr>style_padding := pad\<lparr>edge_left := v\<rparr>\<rparr>))
      else if property = ''padding-block'' then
        bind (parse2ValueShorthand value) (\<lambda>(t, b). Inr (style\<lparr>style_padding := pad\<lparr>edge_top := t, edge_bottom := b\<rparr>\<rparr>))
      else if property = ''padding-inline'' then
        bind (parse2ValueShorthand value) (\<lambda>(l, r). Inr (style\<lparr>style_padding := pad\<lparr>edge_left := l, edge_right := r\<rparr>\<rparr>))
      else if property = ''margin'' then
        bind (parse4ValueShorthand value) (\<lambda>e. Inr (style\<lparr>style_margin := e\<rparr>))
      else if property = ''margin-top'' \<or> property = ''margin-block-start'' then
        bind (parseValue value) (\<lambda>v. Inr (style\<lparr>style_margin := mar\<lparr>edge_top := v\<rparr>\<rparr>))
      else if property = ''margin-right'' \<or> property = ''margin-inline-end'' then
        bind (parseValue value) (\<lambda>v. Inr (style\<lparr>style_margin := mar\<lparr>edge_right := v\<rparr>\<rparr>))
      else if property = ''margin-bottom'' \<or> property = ''margin-block-end'' then
        bind (parseValue value) (\<lambda>v. Inr (style\<lparr>style_margin := mar\<lparr>edge_bottom := v\<rparr>\<rparr>))
      else if property = ''margin-left'' \<or> property = ''margin-inline-start'' then
        bind (parseValue value) (\<lambda>v. Inr (style\<lparr>style_margin := mar\<lparr>edge_left := v\<rparr>\<rparr>))
      else if property = ''margin-block'' then
        bind (parse2ValueShorthand value) (\<lambda>(t, b). Inr (style\<lparr>style_margin := mar\<lparr>edge_top := t, edge_bottom := b\<rparr>\<rparr>))
      else if property = ''margin-inline'' then
        bind (parse2ValueShorthand value) (\<lambda>(l, r). Inr (style\<lparr>style_margin := mar\<lparr>edge_left := l, edge_right := r\<rparr>\<rparr>))
      else if property = ''border-width'' then
        bind (parse4ValueShorthand value) (\<lambda>e. Inr (style\<lparr>style_borderWidth := e\<rparr>))
      else if property = ''border-top-width'' then
        bind (parseValue value) (\<lambda>v. Inr (style\<lparr>style_borderWidth := bw\<lparr>edge_top := v\<rparr>\<rparr>))
      else if property = ''border-right-width'' then
        bind (parseValue value) (\<lambda>v. Inr (style\<lparr>style_borderWidth := bw\<lparr>edge_right := v\<rparr>\<rparr>))
      else if property = ''border-bottom-width'' then
        bind (parseValue value) (\<lambda>v. Inr (style\<lparr>style_borderWidth := bw\<lparr>edge_bottom := v\<rparr>\<rparr>))
      else if property = ''border-left-width'' then
        bind (parseValue value) (\<lambda>v. Inr (style\<lparr>style_borderWidth := bw\<lparr>edge_left := v\<rparr>\<rparr>))
      else if property \<in> set unmodelledProperties then Inl Unmodelled
      else if property \<in> set discardedValueProperties then
        bind (parseValue value) (\<lambda>v. Inr style)
      else if property = ''width'' then bind (parseValue value) (\<lambda>v. Inr (style\<lparr>style_width := v\<rparr>))
      else if property = ''height'' then bind (parseValue value) (\<lambda>v. Inr (style\<lparr>style_height := v\<rparr>))
      else if property = ''min-width'' then bind (parseValue value) (\<lambda>v. Inr (style\<lparr>style_minWidth := v\<rparr>))
      else if property = ''max-width'' then bind (parseValue value) (\<lambda>v. Inr (style\<lparr>style_maxWidth := v\<rparr>))
      else if property = ''min-height'' then bind (parseValue value) (\<lambda>v. Inr (style\<lparr>style_minHeight := v\<rparr>))
      else if property = ''max-height'' then bind (parseValue value) (\<lambda>v. Inr (style\<lparr>style_maxHeight := v\<rparr>))
      else if property = ''font-size'' then
        bind (parseValue value) (\<lambda>v. Inr (style\<lparr>style_fontSize := toPx2 v 0 16\<rparr>))
      else if property = ''line-height'' then
        (let v = trim value in
         if contains v ''px'' \<or> contains v ''em'' then
           bind (parseValue v) (\<lambda>p. Inr (style\<lparr>style_lineHeight := toPx2 p 0 (style_fontSize style) / style_fontSize style\<rparr>))
         else bind (stof v) (\<lambda>f. Inr (style\<lparr>style_lineHeight := f\<rparr>)))
      else if property = ''font-family'' then
        (if contains (trim value) ''monospace'' \<and> style_fontSize style = 16
         then Inr (style\<lparr>style_fontSize := 13\<rparr>) else Inr style)
      else if property = ''display'' then
        (let v = trim value in
         if v = ''block'' then Inr (style\<lparr>style_display := Block\<rparr>)
         else if v = ''inline'' then Inr (style\<lparr>style_display := Inline\<rparr>)
         else if v = ''inline-block'' then Inr (style\<lparr>style_display := InlineBlock\<rparr>)
         else if v = ''flex'' then Inr (style\<lparr>style_display := Flex\<rparr>)
         else if v = ''grid'' then Inr (style\<lparr>style_display := Grid\<rparr>)
         else if v = ''table'' then Inr (style\<lparr>style_display := Table\<rparr>)
         else if v = ''table-row-group'' then Inr (style\<lparr>style_display := TableRowGroup\<rparr>)
         else if v = ''table-row'' then Inr (style\<lparr>style_display := TableRow\<rparr>)
         else if v = ''table-cell'' then Inr (style\<lparr>style_display := TableCell\<rparr>)
         else if v = ''none'' then Inr (style\<lparr>style_display := Hidden\<rparr>)
         else Inr style)
      else if property = ''box-sizing'' then
        Inr (style\<lparr>style_boxSizing := (if trim value = ''border-box'' then BorderBox else ContentBox)\<rparr>)
      else if property = ''overflow'' then
        (let v = trim value in
         Inr (style\<lparr>style_overflow := (if v = ''hidden'' then OverflowHidden
                                         else if v = ''scroll'' then Scroll
                                         else if v = ''auto'' then OverflowAuto else Visible)\<rparr>))
      else if property = ''z-index'' then
        bind (stoi (trim value)) (\<lambda>z. Inr (style\<lparr>style_zIndex := z\<rparr>))
      else if property = ''opacity'' then
        bind (stof (trim value)) (\<lambda>f. Inr (style\<lparr>style_opacity := f\<rparr>))
      else if property = ''flex-direction'' then Inr (style\<lparr>style_flexDirection := trim value\<rparr>)
      else if property = ''flex-wrap'' then Inr (style\<lparr>style_flexWrap := trim value\<rparr>)
      else if property = ''justify-content'' then Inr (style\<lparr>style_justifyContent := trim value\<rparr>)
      else if property = ''flex-grow'' then
        bind (stof (trim value)) (\<lambda>f. Inr (style\<lparr>style_flexGrow := f\<rparr>))
      else if property = ''flex-shrink'' then
        bind (stof (trim value)) (\<lambda>f. Inr (style\<lparr>style_flexShrink := f\<rparr>))
      else if property = ''flex-basis'' then
        bind (parseValue value) (\<lambda>v. Inr (style\<lparr>style_flexBasis := v\<rparr>))
      else if property = ''flex'' then apply_flex value style
      else if property = ''gap'' then
        bind (parseValue value) (\<lambda>v. Inr (style\<lparr>style_gap := toPx0 v\<rparr>))
      else Inr style)"

text \<open>
  \<open>StyleSheet::applyDeclarations\<close> walks the declaration map, a \<open>std::map\<close>, in the order of
  the property names; the list is the map in that order. Nothing catches an exception of
  \<open>applyProperty\<close>, neither here nor in \<open>computeStyle\<close> or its callers.
\<close>

fun applyDeclarations :: "(string \<times> string) list \<Rightarrow> ComputedStyle \<Rightarrow> error + ComputedStyle" where
  "applyDeclarations [] style = Inr style"
| "applyDeclarations ((property, value) # rest) style =
     bind (applyProperty property value style) (applyDeclarations rest)"

section \<open>Text selection and its serialization\<close>

text \<open>
  \<open>TextSelection\<close> (RenderTree.hpp). A \<open>std::shared_ptr\<close> to a render box is the box it points
  to, or \<open>None\<close> for the null pointer; two pointers are equal when the addresses \<open>boxId\<close>
  are. A fresh selection has every field at its initialiser.
\<close>

record TextSelection =
  anchorBox :: "RenderBox option"
  anchorLineIndex :: nat
  anchorCharIndex :: nat
  focusBox :: "RenderBox option"
  focusLineIndex :: nat
  focusCharIndex :: nat
  isSelecting :: bool
  hasSelection :: bool
  goalX :: real
  allTextBoxes :: "RenderBox list"

definition samePointer :: "RenderBox option \<Rightarrow> RenderBox option \<Rightarrow> bool" where
  "samePointer p q = (map_option boxId p = map_option boxId q)"




definition updateSelection :: "RenderBox option \<Rightarrow> nat \<Rightarrow> nat \<Rightarrow> TextSelection \<Rightarrow> TextSelection" where
  "updateSelection box lineIdx charIdx sel =
     sel\<lparr>focusBox := box, focusLineIndex := lineIdx, focusCharIndex := charIdx,
         hasSelection := (\<not> samePointer (anchorBox sel) box \<or> anchorLineIndex sel \<noteq> lineIdx \<or>
                          anchorCharIndex sel \<noteq> charIdx)\<rparr>"


definition endSelection :: "TextSelection \<Rightarrow> TextSelection" where
  "endSelection sel = sel\<lparr>isSelecting := False\<rparr>"







text \<open>
  \<open>std::string::substr(pos, n)\<close> for \<open>pos\<close> within the string, which every call below
  guarantees.
\<close>

definition substr :: "string \<Rightarrow> nat \<Rightarrow> nat \<Rightarrow> string" where
  "substr s pos n = take n (drop pos s)"












section \<open>Moving the focus caret with Shift and the arrow keys (HtmlParser.hpp)\<close>

text \<open>
  \<open>MSDFFont::getTextWidth\<close>: the sum of the scaled advances of the valid glyphs of a text;
  0 for a font without atlas. The loop shares its shape with the one of the hit test.
\<close>

function getTextWidth_loop :: "MSDFAtlas \<Rightarrow> string \<Rightarrow> real \<Rightarrow> nat \<Rightarrow> real \<Rightarrow> real" where
  "getTextWidth_loop atlas text scale i width =
     (if i < length text then
        (let (cp, i1) = decodeUTF8 text i
         in if cp < 32 then getTextWidth_loop atlas text scale (i1 + 1) width
            else getTextWidth_loop atlas text scale (i1 + 1) (add_advance atlas scale cp width))
      else width)"
  by pat_completeness auto
termination
  by (relation "measure (\<lambda>(atlas, text, scale, i, width). length text - i)")
     (auto dest: decodeUTF8_next)

declare getTextWidth_loop.simps [simp del]

definition getTextWidth :: "MSDFFont \<Rightarrow> string \<Rightarrow> real \<Rightarrow> real" where
  "getTextWidth font text fontSize =
     (case font of
        None \<Rightarrow> 0
      | Some atlas \<Rightarrow> getTextWidth_loop atlas text (fontSize / glyphSize atlas) 0 0)"


definition FLT_MAX :: real where
  "FLT_MAX = 2 ^ 128 - 2 ^ 104"








text \<open>
  Shift+Up and Shift+Down collect the lines of all text boxes as \<open>VisualLine\<close> records (the
  fields \<open>box\<close>, \<open>lineIndex\<close>, \<open>y\<close>, \<open>x\<close>, \<open>width\<close> carry the prefix \<open>vl_\<close>) and sort them
  by row and then by x. \<open>std::sort\<close> is modelled by insertion sort; whenever the comparator
  orders the collected lines totally, as on lines that lie more than one pixel apart
  vertically, every sorting algorithm returns the same list.
\<close>

record VisualLine =
  vl_box :: RenderBox
  vl_lineIndex :: nat
  vl_y :: real
  vl_x :: real
  vl_width :: real






text \<open>
  The body shared by the two inner loops: a line that contains \<open>targetX\<close> wins and closes
  the contest (\<open>bestDist = -1\<close>), otherwise the line nearest to it so far. The state is the
  pair of \<open>targetLineIdx\<close> and \<open>bestDist\<close>.
\<close>

definition considerLine :: "VisualLine \<Rightarrow> int \<Rightarrow> real \<Rightarrow> int \<times> real \<Rightarrow> int \<times> real" where
  "considerLine v j targetX st =
     (let (targetLineIdx, bestDist) = st in
      if targetX \<ge> vl_x v \<and> targetX \<le> vl_x v + vl_width v then (j, - 1)
      else if bestDist \<ge> 0 then
        (let dist = min \<bar>vl_x v - targetX\<bar> \<bar>vl_x v + vl_width v - targetX\<bar>
         in if dist < bestDist then (j, dist) else (targetLineIdx, bestDist))
      else (targetLineIdx, bestDist))"



text \<open>Shift+Down: the same two loops, upwards from the index after the current line.\<close>

function scanBelow :: "VisualLine list \<Rightarrow> real \<Rightarrow> real \<Rightarrow> nat \<Rightarrow> int \<times> real \<Rightarrow> int \<times> real" where
  "scanBelow allLines targetY targetX j st =
     (if j < length allLines \<and> vl_y (allLines ! j) \<le> targetY + 1
      then scanBelow allLines targetY targetX (j + 1) (considerLine (allLines ! j) (int j) targetX st)
      else st)"
  by pat_completeness auto
termination
  by (relation "measure (\<lambda>(allLines, targetY, targetX, j, st). length allLines - j)") auto

function findBelow :: "VisualLine list \<Rightarrow> real \<Rightarrow> real \<Rightarrow> nat \<Rightarrow> int" where
  "findBelow allLines currentY targetX i =
     (if i < length allLines then
        (if vl_y (allLines ! i) > currentY + 1
         then fst (scanBelow allLines (vl_y (allLines ! i)) targetX i (- 1, FLT_MAX))
         else findBelow allLines currentY targetX (i + 1))
      else - 1)"
  by pat_completeness auto
termination
  by (relation "measure (\<lambda>(allLines, currentY, targetX, i). length allLines - i)") auto

declare scanBelow.simps [simp del] findBelow.simps [simp del]





text \<open>
  The caret's absolute x, and the branch for \<open>SDLK_UP\<close> and \<open>SDLK_DOWN\<close>. \<open>fb\<close> is the box
  the focus points to and \<open>font\<close> the default font of the font manager. Without a line above,
  Shift+Up moves to the first line and lets the common tail place the caret on it; without a
  line below, Shift+Down moves to the end of the last line, and the tail is skipped because
  \<open>targetLineIdx\<close> is still \<open>-1\<close>.
\<close>

definition cursorX :: "MSDFFont \<Rightarrow> RenderBox \<Rightarrow> TextSelection \<Rightarrow> real" where
  "cursorX font fb sel =
     (let currentLine = textLines fb ! focusLineIndex sel
      in if focusCharIndex sel > 0 then
           lineX currentLine +
             getTextWidth font (substr (lineText currentLine) 0 (focusCharIndex sel)) (boxFontSize fb)
         else lineX currentLine)"


text \<open>
  The handler of a key press with Shift held, for the four arrow keys. A selection is opened
  at the focus if there is none (\<open>openSelectionAtFocus\<close>); nothing else happens unless the focus points to a box with
  lines. The handler then reads line \<open>focusLineIndex\<close> of that box without a bounds check:
  past the end the behaviour is undefined, which is the result \<open>None\<close>.
\<close>

definition openSelectionAtFocus :: "TextSelection \<Rightarrow> TextSelection" where
  "openSelectionAtFocus sel =
     (if \<not> hasSelection sel \<and> focusBox sel \<noteq> None then
        sel\<lparr>anchorBox := focusBox sel, anchorLineIndex := focusLineIndex sel,
            anchorCharIndex := focusCharIndex sel, hasSelection := True\<rparr>
      else sel)"









section \<open>Distribution of free space in a flex row\<close>

lemma layout_availableWidth [simp]: "lb_availableWidth (layout env c x y w f) = w"
  by (simp add: layout_def Let_def)







section \<open>Malformed numbers in declarations\<close>

lemma stof_abc: "stof ''abc'' = Inl InvalidArgument"
  by (simp add: stof_def isspace_def isdigit_def starts_with_ci_def tolower_def)

lemma stoi_abc: "stoi ''abc'' = Inl InvalidArgument"
  by (simp add: stoi_def isspace_def isdigit_def)

lemma trim_abc: "trim ''abc'' = ''abc''"
  by (simp add: trim_def trim_char_def)

lemma parseValue_abc: "parseValue ''abc'' = Inr (CssValue 0 Px)"
  by (simp add: parseValue_def trim_abc num_char_def isdigit_def)

lemma splitValues_abc: "splitValues ''abc'' = [''abc'']"
  by (simp add: splitValues.simps isspace_def)

lemma parseValue_10px: "parseValue ''10px'' = Inr (CssValue 10 Px)"
  by (simp add: parseValue_def trim_def trim_char_def num_char_def isdigit_def stof_def isspace_def
      starts_with_ci_def tolower_def stof_exponent_def digit_val_def FLT_OVERFLOW_def)

text \<open>
  Claim C2 at the declarations \<open>opacity: abc\<close>, \<open>line-height: abc\<close>, \<open>z-index: abc\<close>,
  \<open>flex-grow: abc\<close> and \<open>flex-shrink: abc\<close>: each throws \<open>std::invalid_argument\<close>, and a
  declaration that follows (\<open>width: 10px\<close>) is not applied. The \<open>flex\<close> shorthand, which
  guards its conversions, skips the same value.
\<close>

theorem applyDeclarations_aborts_on_malformed_number:
  "applyDeclarations [(''opacity'', ''abc'')] style = Inl InvalidArgument \<and>
   applyDeclarations [(''line-height'', ''abc'')] style = Inl InvalidArgument \<and>
   applyDeclarations [(''z-index'', ''abc'')] style = Inl InvalidArgument \<and>
   applyDeclarations [(''flex-grow'', ''abc'')] style = Inl InvalidArgument \<and>
   applyDeclarations [(''flex-shrink'', ''abc'')] style = Inl InvalidArgument \<and>
   applyDeclarations [(''opacity'', ''abc''), (''width'', ''10px'')] style = Inl InvalidArgument \<and>
   applyDeclarations [(''width'', ''10px'')] style = Inr (style\<lparr>style_width := CssValue 10 Px\<rparr>) \<and>
   applyDeclarations [(''flex'', ''abc'')] style = Inr (style\<lparr>style_flexBasis := CssValue 0 Px\<rparr>)"
  by (simp add: applyProperty_def bind_def stof_abc stoi_abc trim_abc parseValue_abc parseValue_10px
      splitValues_abc apply_flex_def unmodelledProperties_def discardedValueProperties_def)

section \<open>Vertical margins of adjacent blocks\<close>

lemma toPx0_zero [simp]: "toPx0 (CssValue 0 Px) = 0"
  by (simp add: toPx0_def toPx_def)

lemma layout_border_top:
  assumes "style_display (lb_nodeStyle c) \<noteq> Hidden"
  shows "rect_y (borderBox (lb_box (layout env c x y w f)))
           = y + getMarginTop (lb_nodeStyle c) w (style_fontSize (lb_nodeStyle c)) + paddingTopDrift c w"
  using assms
  by (simp add: layout_def Let_def borderBox_def paddingTopDrift_def getBorderTopWidth_def
      EdgeValues_all_def)

lemma layout_nodeStyle [simp]: "lb_nodeStyle (layout env c x y w f) = lb_nodeStyle c"
  by (simp add: layout_def Let_def)

lemma layout_flags [simp]:
  "lb_isText (layout env c x y w f) = lb_isText c"
  "lb_isCheckable (layout env c x y w f) = lb_isCheckable c"
  by (simp_all add: layout_def Let_def)

lemma block_loop_block_head:
  assumes "\<not> isInlineContext c"
  shows "block_loop env x w cy pmb (c # rest) =
     (let c' = layout env c x (cy - pmb + max pmb (marginTopOf c w) - marginTopOf c w) w False;
          r = block_loop env x w (rect_bottom (borderBox (lb_box c')) + marginBottomOf c w)
                (marginBottomOf c w) rest
      in (c' # fst r, snd r))"
  using assms
  by (simp add: block_loop.simps(2) Let_def marginTopOf_def marginBottomOf_def case_prod_unfold)

lemma block_pair_gap:
  assumes a: "\<not> isInlineContext a" and b: "\<not> isInlineContext b"
    and d: "style_display (lb_nodeStyle b) \<noteq> Hidden"
  shows "borderBoxGap (fst (block_loop env x w cy pmb (a # b # rest)) ! 0)
                      (fst (block_loop env x w cy pmb (a # b # rest)) ! 1)
         = max (marginBottomOf a w) (marginTopOf b w) + paddingTopDrift b w"
  using d
  by (simp add: block_loop_block_head[OF a] block_loop_block_head[OF b] Let_def borderBoxGap_def
      layout_border_top marginTopOf_def)

lemma place_group_length [simp]: "length (place_group grp geo) = length grp"
  by (simp add: place_group_def)

lemma block_loop_inline_head:
  assumes "isInlineContext c"
  shows "block_loop env x w cy pmb (c # rest) =
     (let grp = takeWhile isInlineContext (c # rest);
          g = env_inlineGroup env grp x cy w;
          r = block_loop env x w (cy + snd g) 0 (dropWhile isInlineContext (c # rest))
      in (place_group grp (fst g) @ fst r, snd r))"
  using assms
  by (simp add: block_loop.simps(2) Let_def case_prod_unfold)

text \<open>
  The distance between the border boxes of two adjacent block children, wherever they stand
  in the list: the larger of the two margins, plus the padding drift of the second.
\<close>

lemma block_loop_gap_at:
  assumes "Suc i < length cs" "\<not> isInlineContext (cs ! i)" "\<not> isInlineContext (cs ! Suc i)"
    and "style_display (lb_nodeStyle (cs ! Suc i)) \<noteq> Hidden"
  shows "borderBoxGap (fst (block_loop env x w cy pmb cs) ! i) (fst (block_loop env x w cy pmb cs) ! Suc i)
         = max (marginBottomOf (cs ! i) w) (marginTopOf (cs ! Suc i) w) + paddingTopDrift (cs ! Suc i) w"
  using assms
proof (induction cs arbitrary: i cy pmb rule: length_induct)
  case (1 cs)
  then obtain c rest where cs: "cs = c # rest" by (cases cs) auto
  show ?case
  proof (cases "isInlineContext c")
    case True
    let ?grp = "takeWhile isInlineContext cs"
    let ?rem = "dropWhile isInlineContext cs"
    let ?k = "length ?grp"
    have k: "0 < ?k" using True cs by simp
    have ik: "?k \<le> i"
    proof (rule ccontr)
      assume "\<not> ?k \<le> i"
      then have "i < ?k" by simp
      then have "isInlineContext (cs ! i)"
        by (metis nth_mem set_takeWhileD takeWhile_nth)
      then show False using "1.prems"(2) by simp
    qed
    have split: "cs = ?grp @ ?rem" by simp
    have n1: "cs ! i = ?rem ! (i - ?k)" using ik by (metis split nth_append not_less)
    have n2: "cs ! Suc i = ?rem ! Suc (i - ?k)"
      using ik by (metis split nth_append not_less Suc_diff_le le_SucI)
    have len: "length ?rem < length cs"
      using k by (metis split length_append less_add_same_cancel2)
    have l2: "Suc (i - ?k) < length ?rem"
      using "1.prems"(1) ik by (metis split length_append Suc_diff_le less_diff_conv2 add.commute le_SucI)
    obtain g where g: "g = env_inlineGroup env ?grp x cy w" by simp
    let ?r = "block_loop env x w (cy + snd g) 0 ?rem"
    have out: "fst (block_loop env x w cy pmb cs) = place_group ?grp (fst g) @ fst ?r"
      using True cs g by (simp add: block_loop_inline_head Let_def)
    have o1: "fst (block_loop env x w cy pmb cs) ! i = fst ?r ! (i - ?k)"
      using ik by (simp add: out nth_append)
    have o2: "fst (block_loop env x w cy pmb cs) ! Suc i = fst ?r ! Suc (i - ?k)"
      using ik by (simp add: out nth_append Suc_diff_le)
    show ?thesis
      using "1.IH"[rule_format, OF len l2, of "cy + snd g" 0] "1.prems"(2,3,4)
      unfolding o1 o2 n1 n2 by simp
  next
    case False
    show ?thesis
    proof (cases i)
      case 0
      then obtain b rest' where rest: "rest = b # rest'"
        using "1.prems"(1) cs by (cases rest) auto
      show ?thesis
        using block_pair_gap[of c b env x w cy pmb rest'] False "1.prems"(3,4) 0
        by (simp add: cs rest)
    next
      case (Suc j)
      let ?c' = "layout env c x (cy - pmb + max pmb (marginTopOf c w) - marginTopOf c w) w False"
      let ?r = "block_loop env x w (rect_bottom (borderBox (lb_box ?c')) + marginBottomOf c w)
                  (marginBottomOf c w) rest"
      have out: "fst (block_loop env x w cy pmb (c # rest)) = ?c' # fst ?r"
        using False by (simp add: block_loop_block_head Let_def)
      have len: "length rest < length cs" by (simp add: cs)
      have l2: "Suc j < length rest" using "1.prems"(1) Suc cs by simp
      show ?thesis
        using "1.IH"[rule_format, OF len l2] "1.prems"(2,3,4)
        by (simp add: out Suc cs)
    qed
  qed
qed

lemma layoutBlockChildren_gap:
  assumes "Suc i < length cs" "\<not> isInlineContext (cs ! i)" "\<not> isInlineContext (cs ! Suc i)"
    and "style_display (lb_nodeStyle (cs ! Suc i)) \<noteq> Hidden"
  shows "borderBoxGap (fst (layoutBlockChildren env cs x y w) ! i)
                      (fst (layoutBlockChildren env cs x y w) ! Suc i)
         = max (marginBottomOf (cs ! i) w) (marginTopOf (cs ! Suc i) w) + paddingTopDrift (cs ! Suc i) w"
proof -
  have "cs ! i \<in> set cs" using assms(1) by simp
  then have "\<not> list_all isInlineContext cs" using assms(2) by (auto simp: list_all_iff)
  then have "fst (layoutBlockChildren env cs x y w) = fst (block_loop env x w y 0 cs)"
    by (simp add: layoutBlockChildren_def Let_def case_prod_unfold)
  then show ?thesis using block_loop_gap_at[OF assms] by simp
qed

lemma paddingTopDrift_zero:
  assumes "lb_isCheckable c \<or>
           cv_unit (edge_top (style_padding (lb_nodeStyle c))) \<notin> {Em, Percent}"
  shows "paddingTopDrift c w = 0"
  using assms
  by (cases "cv_unit (edge_top (style_padding (lb_nodeStyle c)))")
     (auto simp: paddingTopDrift_def getPaddingTop_def toPx2_def toPx0_def toPx_def)

text \<open>
  Two blocks with vertical margins of 20px each are 20 pixels apart.
\<close>

theorem margin_collapse_px_margins:
  "borderBoxGap (fst (layoutBlockChildren simpleEnv [blockA, blockA] 0 0 200) ! 0)
                (fst (layoutBlockChildren simpleEnv [blockA, blockA] 0 0 200) ! 1) = 20"
proof -
  have "borderBoxGap (fst (layoutBlockChildren simpleEnv [blockA, blockA] 0 0 200) ! 0)
                (fst (layoutBlockChildren simpleEnv [blockA, blockA] 0 0 200) ! Suc 0)
        = max (marginBottomOf ([blockA, blockA] ! 0) 200) (marginTopOf ([blockA, blockA] ! Suc 0) 200)
          + paddingTopDrift ([blockA, blockA] ! Suc 0) 200"
    by (rule layoutBlockChildren_gap)
       (simp_all add: blockA_def newBox_def marginStyle_def defaultStyle_def isInlineContext_def)
  then show ?thesis
    by (simp add: blockA_def newBox_def marginStyle_def defaultStyle_def marginBottomOf_def
        marginTopOf_def paddingTopDrift_def getMarginBottom_def getMarginTop_def getPaddingTop_def
        toPx2_def toPx0_def toPx_def EdgeValues_all_def)
qed

text \<open>
  Claim C3 at two adjacent blocks with vertical margins of 20px, the second with
  \<open>padding-top: 10%\<close>, in a container 200 wide: the larger margin is 20, and the border boxes
  are 40 apart.
\<close>

theorem margin_collapse_percent_padding_gap:
  "borderBoxGap (fst (layoutBlockChildren simpleEnv [blockA, blockB] 0 0 200) ! 0)
                (fst (layoutBlockChildren simpleEnv [blockA, blockB] 0 0 200) ! 1) = 40 \<and>
   max (marginBottomOf blockA 200) (marginTopOf blockB 200) = 20"
proof -
  have "borderBoxGap (fst (layoutBlockChildren simpleEnv [blockA, blockB] 0 0 200) ! 0)
                (fst (layoutBlockChildren simpleEnv [blockA, blockB] 0 0 200) ! Suc 0)
        = max (marginBottomOf ([blockA, blockB] ! 0) 200) (marginTopOf ([blockA, blockB] ! Suc 0) 200)
          + paddingTopDrift ([blockA, blockB] ! Suc 0) 200"
    by (rule layoutBlockChildren_gap)
       (simp_all add: blockA_def blockB_def newBox_def marginStyle_def defaultStyle_def isInlineContext_def)
  then show ?thesis
    by (simp add: blockA_def blockB_def newBox_def marginStyle_def defaultStyle_def marginBottomOf_def
        marginTopOf_def paddingTopDrift_def getMarginBottom_def getMarginTop_def getPaddingTop_def
        toPx2_def toPx0_def toPx_def EdgeValues_all_def)
qed

section \<open>Properties of the word-boundary search\<close>









section \<open>Serialization of a selection\<close>





lemma pieces_Suc:
  "filter (\<lambda>p. p \<noteq> []) (map f [0..<Suc n]) =
     filter (\<lambda>p. p \<noteq> []) (map f [0..<n]) @ (if f n \<noteq> [] then [f n] else [])"
  by simp












section \<open>Scroll offsets stay within the scroll extent\<close>

lemma clampScroll_range:
  "0 \<le> scrollY (clampScroll b)" "scrollY (clampScroll b) \<le> max 0 (scrollableHeight b)"
  "scrollableHeight (clampScroll b) = scrollableHeight b" "overflow (clampScroll b) = overflow b"
  "scrollY (clampScroll b) = max 0 (min (scrollY b) (max 0 (scrollableHeight b)))"
  by (simp_all add: clampScroll_def maxScrollY_def maxScrollX_def Let_def)




section \<open>The list of text boxes is in document order\<close>

lemma collect_fold:
  assumes "\<And>c acc. c \<in> set cs \<Longrightarrow> collectTextBoxes c acc = acc @ filter isTextBoxWithLines (preorder c)"
  shows "fold (\<lambda>child acc. collectTextBoxes child acc) cs acc
           = acc @ filter isTextBoxWithLines (concat (map preorder cs))"
  using assms by (induction cs arbitrary: acc) simp_all

lemma collectTextBoxes_preorder:
  "collectTextBoxes box acc = acc @ filter isTextBoxWithLines (preorder box)"
proof (induction box arbitrary: acc)
  case (RenderBox bid n fs ls cs)
  have f: "\<And>a. fold (\<lambda>child acc. collectTextBoxes child acc) cs a
             = a @ filter isTextBoxWithLines (concat (map preorder cs))"
    using RenderBox by (intro collect_fold) simp
  have p: "isTextBoxWithLines (RenderBox bid n fs ls cs)
             = ((case n of None \<Rightarrow> False | Some nd \<Rightarrow> nodeType nd = Text) \<and> ls \<noteq> [])"
    by (simp add: isTextBoxWithLines_def)
  show ?case by (simp add: f p)
qed

lemma mirrors_preorder: "mirrors dn box \<Longrightarrow> map node (preorder box) = map Some (preorderNodes dn)"
proof (induction dn box rule: mirrors.induct)
  case (1 t tag tx cs bid n fs ls bs)
  have l: "list_all2 mirrors cs bs" using "1.prems" by simp
  have "list_all2 (\<lambda>c b. map node (preorder b) = map Some (preorderNodes c)) cs bs"
    using l "1.IH" by (auto simp: list_all2_conv_all_nth set_zip in_set_conv_nth intro!: "1.IH")
  then have "concat (map (\<lambda>b. map node (preorder b)) bs) = concat (map (\<lambda>c. map Some (preorderNodes c)) cs)"
    by (induction cs bs rule: list_all2_induct) simp_all
  then show ?case using "1.prems" by (simp add: map_concat comp_def)
qed


lemma build_fold_mirrors:
  assumes "\<And>c k. c \<in> set cs \<Longrightarrow> mirrors c (fst (build_from k c))"
    and "list_all2 mirrors ds acc"
  shows "list_all2 mirrors (ds @ cs)
           (fst (fold (\<lambda>c (acc, k). (case build_from k c of (b, k') \<Rightarrow> (acc @ [b], k'))) cs (acc, k)))"
  using assms
proof (induction cs arbitrary: ds acc k)
  case Nil
  then show ?case by simp
next
  case (Cons c cs)
  obtain b k' where b: "build_from k c = (b, k')" by (cases "build_from k c")
  have m: "mirrors c b" using Cons.prems(1)[of c k] b by simp
  have "list_all2 mirrors (ds @ [c]) (acc @ [b])"
    using Cons.prems(2) m by (simp add: list_all2_appendI)
  then have "list_all2 mirrors ((ds @ [c]) @ cs)
     (fst (fold (\<lambda>c (acc, k). (case build_from k c of (b, k') \<Rightarrow> (acc @ [b], k'))) cs (acc @ [b], k')))"
    using Cons.prems(1) by (intro Cons.IH) simp_all
  then show ?case by (simp add: b)
qed

lemma build_mirrors: "mirrors n (fst (build_from k n))"
proof (induction n arbitrary: k)
  case (Node t tag tx cs)
  have "list_all2 mirrors ([] @ cs)
          (fst (fold (\<lambda>c (acc, k). (case build_from k c of (b, k') \<Rightarrow> (acc @ [b], k'))) cs ([], k + 1)))"
    using Node by (intro build_fold_mirrors) simp_all
  then show ?case by (simp add: case_prod_unfold Let_def)
qed

lemma subseq_filter_map:
  assumes "\<And>b. b \<in> set xs \<Longrightarrow> P b \<Longrightarrow> Q (f b)"
  shows "subseq (map f (filter P xs)) (filter Q (map f xs))"
  using assms by (induction xs) auto

lemma filter_textNode_Some:
  "filter textNodeWithContent (map Some ns)
     = map Some (filter (\<lambda>n. nodeType n = Text \<and> textContent n \<noteq> []) ns)"
  by (induction ns) (simp_all add: textNodeWithContent_def)

text \<open>
  Claim C7. The list rebuilt after layout is exactly the pre-order enumeration of the render
  boxes whose node is a text node and whose list of text lines is not empty; the render tree
  built from a DOM tree mirrors it; and for a render tree that mirrors the DOM, the nodes of
  the listed boxes appear in the order of the pre-order traversal of the DOM restricted to
  text nodes with non-empty content.
\<close>

theorem allTextBoxes_document_order:
  "rebuildTextBoxes None = [] \<and>
   rebuildTextBoxes (Some rt) = filter isTextBoxWithLines (preorder rt) \<and>
   mirrors doc (fst (build_from k doc)) \<and>
   (mirrors doc rt \<and> linesOnlyForContent rt \<longrightarrow>
      subseq (map node (rebuildTextBoxes (Some rt)))
             (map Some (filter (\<lambda>n. nodeType n = Text \<and> textContent n \<noteq> []) (preorderNodes doc))))"
proof (intro conjI impI)
  show "rebuildTextBoxes None = []" by (simp add: rebuildTextBoxes_def)
  show eq: "rebuildTextBoxes (Some rt) = filter isTextBoxWithLines (preorder rt)"
    by (simp add: rebuildTextBoxes_def collectTextBoxes_preorder)
  show "mirrors doc (fst (build_from k doc))" by (rule build_mirrors)
  assume a: "mirrors doc rt \<and> linesOnlyForContent rt"
  have "\<And>b. b \<in> set (preorder rt) \<Longrightarrow> isTextBoxWithLines b \<Longrightarrow> textNodeWithContent (node b)"
    using a by (auto simp: linesOnlyForContent_def isTextBoxWithLines_def textNodeWithContent_def
        split: option.splits)
  then have s: "subseq (map node (filter isTextBoxWithLines (preorder rt)))
                       (filter textNodeWithContent (map node (preorder rt)))"
    by (rule subseq_filter_map)
  have m: "map node (preorder rt) = map Some (preorderNodes doc)"
    using a by (intro mirrors_preorder) simp
  show "subseq (map node (rebuildTextBoxes (Some rt)))
      (map Some (filter (\<lambda>n. nodeType n = Text \<and> textContent n \<noteq> []) (preorderNodes doc)))"
    using s unfolding eq m filter_textNode_Some .
qed

text \<open>
  The theorem on a document with two paragraphs, the second holding an empty text node before
  its text.
\<close>

theorem allTextBoxes_document_order_witness:
  "map boxId (rebuildTextBoxes (Some exampleRenderTree)) = [2, 5] \<and>
   subseq (map node (rebuildTextBoxes (Some exampleRenderTree)))
          [Some (Node Text [] ''alpha'' []), Some (Node Text [] ''beta'' [])]"
proof -
  have m: "mirrors exampleDocument exampleRenderTree"
    by (simp add: exampleDocument_def exampleRenderTree_def)
  have l: "linesOnlyForContent exampleRenderTree"
    by (simp add: linesOnlyForContent_def exampleRenderTree_def)
  have p: "filter (\<lambda>n. nodeType n = Text \<and> textContent n \<noteq> []) (preorderNodes exampleDocument)
             = [Node Text [] ''alpha'' [], Node Text [] ''beta'' []]"
    by (simp add: exampleDocument_def)
  have q: "map boxId (filter isTextBoxWithLines (preorder exampleRenderTree)) = [2, 5]"
    by (simp add: exampleRenderTree_def isTextBoxWithLines_def)
  have r: "rebuildTextBoxes (Some exampleRenderTree) = filter isTextBoxWithLines (preorder exampleRenderTree)"
    using allTextBoxes_document_order[of exampleRenderTree exampleDocument 0] by blast
  have o: "subseq (map node (rebuildTextBoxes (Some exampleRenderTree)))
             (map Some (filter (\<lambda>n. nodeType n = Text \<and> textContent n \<noteq> [])
                          (preorderNodes exampleDocument)))"
    using allTextBoxes_document_order[of exampleRenderTree exampleDocument 0] m l by blast
  show ?thesis
    using o unfolding p by (simp add: r q)
qed

section \<open>The sticky column of Shift+Up and Shift+Down\<close>
































lemma cursorX_openSelectionAtFocus [simp]:
  "cursorX font fb (openSelectionAtFocus sel) = cursorX font fb sel"
  by (simp add: cursorX_def openSelectionAtFocus_def Let_def)

lemma openSelectionAtFocus_fields [simp]:
  "focusBox (openSelectionAtFocus sel) = focusBox sel"
  "focusLineIndex (openSelectionAtFocus sel) = focusLineIndex sel"
  "focusCharIndex (openSelectionAtFocus sel) = focusCharIndex sel"
  "goalX (openSelectionAtFocus sel) = goalX sel"
  "allTextBoxes (openSelectionAtFocus sel) = allTextBoxes sel"
  by (simp_all add: openSelectionAtFocus_def)














section \<open>The value \<open>0\<close> parses to the unit \<open>None\<close>\<close>
















section \<open>The glyph hit test returns the first midpoint beyond the offset\<close>

lemma hitTestText_loop_le:
  "i \<le> length text \<Longrightarrow> hitTestText_loop atlas text localX scale i x prevX \<le> length text"
proof (induction atlas "text" localX scale i x prevX rule: hitTestText_loop.induct)
  case (1 atlas t localX scale i x prevX)
  show ?case
  proof (cases "i < length t")
    case False
    then show ?thesis by (subst hitTestText_loop.simps) simp
  next
    case True
    obtain cp i1 where d: "decodeUTF8 t i = (cp, i1)" by (cases "decodeUTF8 t i")
    have "i1 + 1 \<le> length t"
      using d True by (auto simp: decodeUTF8_def Let_def split: if_splits)
    then show ?thesis
      using True d "1.IH"(1)[OF True refl refl d[symmetric]] "1.IH"(2)[OF True refl refl d[symmetric] _ refl refl]
      by (subst hitTestText_loop.simps) (auto simp: Let_def)
  qed
qed

lemma hitTestText_loop_first_midpoint_gen:
  "prevX = x \<Longrightarrow>
   hitTestText_loop atlas text localX scale i x prevX =
     first_midpoint_beyond text localX (char_midpoints atlas scale x (glyph_chars text i))"
proof (induction atlas "text" localX scale i x prevX rule: hitTestText_loop.induct)
  case (1 atlas t localX scale i x prevX)
  note px = \<open>prevX = x\<close>
  show ?case
  proof (cases "i < length t")
    case False
    then show ?thesis
      by (subst hitTestText_loop.simps)
         (simp add: glyph_chars_def first_midpoint_beyond_def decoded_chars.simps[of t i])
  next
    case True
    obtain cp i1 where d: "decodeUTF8 t i = (cp, i1)" by (cases "decodeUTF8 t i")
    have dc: "decoded_chars t i = (i, cp) # decoded_chars t (i1 + 1)"
      using True d by (subst decoded_chars.simps) simp
    show ?thesis
    proof (cases "cp < 32")
      case small: True
      then show ?thesis
        using True d "1.IH"(1)[OF True refl refl d[symmetric] small px]
        by (subst hitTestText_loop.simps) (simp add: glyph_chars_def dc)
    next
      case vis: False
      let ?x1 = "add_advance atlas scale cp x"
      show ?thesis
      proof (cases "localX < x + (?x1 - x) / 2")
        case hit: True
        then show ?thesis
          using True d vis px
          by (subst hitTestText_loop.simps)
             (simp add: glyph_chars_def dc first_midpoint_beyond_def Let_def)
      next
        case nb: False
        have "hitTestText_loop atlas t localX scale (i1 + 1) ?x1 ?x1 =
                first_midpoint_beyond t localX (char_midpoints atlas scale ?x1 (glyph_chars t (i1 + 1)))"
          using "1.IH"(2)[OF True refl refl d[symmetric] vis refl refl _ refl] nb px by simp
        then show ?thesis
          using True d vis nb px
          by (subst hitTestText_loop.simps)
             (simp add: glyph_chars_def dc first_midpoint_beyond_def Let_def)
      qed
    qed
  qed
qed

lemma hitTestText_loop_first_midpoint:
  "hitTestText_loop atlas text localX scale i x x =
     first_midpoint_beyond text localX (char_midpoints atlas scale x (glyph_chars text i))"
  by (rule hitTestText_loop_first_midpoint_gen) simp

text \<open>
  Claim C10 as stated names two cases in which the hit test returns 0 (empty text,
  \<open>localX \<le> 0\<close>) and says that otherwise the first midpoint beyond \<open>localX\<close> decides. The
  source has a third guard: a font without atlas returns 0 for every text, also where the
  claim's rule gives the length of the text.
\<close>

theorem hitTestText_without_atlas_counterexample:
  "hitTestText None ''a'' 1 16 = 0 \<and> hitTestText_claimed None ''a'' 1 16 = 1"
  by (simp add: hitTestText_def hitTestText_claimed_def first_midpoint_beyond_def glyph_chars_def
      decoded_chars.simps decodeUTF8_def byte_def Let_def)

text \<open>
  Claim C10, amended. The hit test is total and its result is at most the length of the text;
  it is 0 when the text is empty, when \<open>localX \<le> 0\<close> or when the font has no atlas; otherwise
  it is the start index of the first character with code point at least 32 whose advance
  midpoint exceeds \<open>localX\<close>, and the length of the text when there is none.
\<close>

theorem hitTestText_first_midpoint:
  "hitTestText font text localX fontSize \<le> length text \<and>
   (text = [] \<or> localX \<le> 0 \<or> font = None \<longrightarrow> hitTestText font text localX fontSize = 0) \<and>
   (text \<noteq> [] \<and> 0 < localX \<and> font = Some atlas \<longrightarrow>
      hitTestText font text localX fontSize =
        first_midpoint_beyond text localX
          (char_midpoints atlas (fontSize / glyphSize atlas) 0 (glyph_chars text 0)))"
proof (intro conjI impI)
  show "hitTestText font text localX fontSize \<le> length text"
    using hitTestText_loop_le[of 0 "text"]
    by (auto simp: hitTestText_def split: option.splits)
  show "hitTestText font text localX fontSize = 0"
    if "text = [] \<or> localX \<le> 0 \<or> font = None"
    using that by (auto simp: hitTestText_def split: option.splits)
  show "hitTestText font text localX fontSize =
        first_midpoint_beyond text localX
          (char_midpoints atlas (fontSize / glyphSize atlas) 0 (glyph_chars text 0))"
    if "text \<noteq> [] \<and> 0 < localX \<and> font = Some atlas"
    using that by (simp add: hitTestText_def hitTestText_loop_first_midpoint)
qed

text \<open>
  The theorem on \<open>"ab"\<close> at font size 16 (midpoints 5 and 12.5), on a text with a tab
  between the two letters, and on a font without atlas.
\<close>

theorem hitTestText_first_midpoint_witness:
  "hitTestText (Some testAtlas) ''ab'' 4 16 = 0 \<and>
   hitTestText (Some testAtlas) ''ab'' 12 16 = 1 \<and>
   hitTestText (Some testAtlas) ''ab'' 13 16 = 2 \<and>
   hitTestText (Some testAtlas) [CHR ''a'', CHR 0x09, CHR ''b''] 7 16 = 2 \<and>
   hitTestText None ''ab'' 4 16 = 0"
proof -
  have g: "glyph_chars ''ab'' 0 = [(0, 97), (1, 98)]"
          "glyph_chars [CHR ''a'', CHR 0x09, CHR ''b''] 0 = [(0, 97), (2, 98)]"
    by (simp_all add: glyph_chars_def decoded_chars.simps decodeUTF8_def byte_def Let_def)
  have m: "char_midpoints testAtlas (16 / glyphSize testAtlas) 0 [(0, 97), (1, 98)] = [(0, 5), (1, 12.5)]"
          "char_midpoints testAtlas (16 / glyphSize testAtlas) 0 [(0, 97), (2, 98)] = [(0, 5), (2, 12.5)]"
    by (simp_all add: testAtlas_def add_advance_def Let_def)
  show ?thesis
    using hitTestText_first_midpoint[of "Some testAtlas" "''ab''" 4 16 testAtlas]
          hitTestText_first_midpoint[of "Some testAtlas" "''ab''" 12 16 testAtlas]
          hitTestText_first_midpoint[of "Some testAtlas" "''ab''" 13 16 testAtlas]
          hitTestText_first_midpoint[of "Some testAtlas" "[CHR ''a'', CHR 0x09, CHR ''b'']" 7 16 testAtlas]
          hitTestText_first_midpoint[of None "''ab''" 4 16 testAtlas]
    unfolding g m by (simp add: first_midpoint_beyond_def)
qed

end
